theory Spec2Isabelle
  imports Complex_Main "HOL-Library.AList"
begin

section \<open>Strings\<close>

text \<open>
  JavaScript strings are modelled as \<^typ>\<open>string\<close>, one \<^typ>\<open>char\<close> per code unit, for
  code units below 256. \<open>toLowerCase\<close> is modelled on the letters A-Z only: its result
  is only ever searched for ASCII phrases, and lowercasing any other letter of this range
  gives a letter outside ASCII again, so no search result depends on it.
\<close>

definition toLowerCase_char :: "char \<Rightarrow> char" where
  "toLowerCase_char c =
     (let n = (of_char c :: nat) in if 65 \<le> n \<and> n \<le> 90 then char_of (n + 32) else c)"

definition toLowerCase :: "string \<Rightarrow> string" where
  "toLowerCase s = map toLowerCase_char s"

fun startsWith :: "string \<Rightarrow> string \<Rightarrow> bool" where
  "startsWith s [] = True"
| "startsWith [] (p # ps) = False"
| "startsWith (c # cs) (p # ps) = (c = p \<and> startsWith cs ps)"

text \<open>\<open>s.includes(p)\<close>: \<open>p\<close> occurs in \<open>s\<close> as a contiguous substring.\<close>

fun str_includes :: "string \<Rightarrow> string \<Rightarrow> bool" where
  "str_includes [] p = (p = [])"
| "str_includes (c # cs) p = (startsWith (c # cs) p \<or> str_includes cs p)"

definition isDigit :: "char \<Rightarrow> bool" where
  "isDigit c = (let n = (of_char c :: nat) in 48 \<le> n \<and> n \<le> 57)"

text \<open>The regular expression's \<open>.\<close> stops at a line terminator (LF, CR).\<close>

definition isLineTerminator :: "char \<Rightarrow> bool" where
  "isLineTerminator c = (let n = (of_char c :: nat) in n = 10 \<or> n = 13)"

text \<open>\<open>parseInt\<close> on a string of decimal digits.\<close>

definition parseInt :: "string \<Rightarrow> nat" where
  "parseInt ds = foldl (\<lambda>n c. 10 * n + (of_char c - 48)) 0 ds"

section \<open>Data of the monitor\<close>

text \<open>
  A JavaScript \<open>Map\<close> keeps its keys in insertion order: it is an association list with
  distinct keys. \<open>set\<close> on a present key replaces the value in place and on a new key
  appends (\<^const>\<open>AList.update\<close>), \<open>delete\<close> removes the entry
  (\<^const>\<open>AList.delete\<close>), \<open>get\<close> is \<^const>\<open>map_of\<close>.
\<close>

type_synonym ('k, 'v) js_map = "('k \<times> 'v) list"

abbreviation Map_get :: "('k, 'v) js_map \<Rightarrow> 'k \<Rightarrow> 'v option" where
  "Map_get m k \<equiv> map_of m k"

abbreviation Map_set :: "('k, 'v) js_map \<Rightarrow> 'k \<Rightarrow> 'v \<Rightarrow> ('k, 'v) js_map" where
  "Map_set m k v \<equiv> AList.update k v m"

abbreviation Map_delete :: "('k, 'v) js_map \<Rightarrow> 'k \<Rightarrow> ('k, 'v) js_map" where
  "Map_delete m k \<equiv> AList.delete k m"

abbreviation Map_keys :: "('k, 'v) js_map \<Rightarrow> 'k list" where
  "Map_keys m \<equiv> map fst m"

text \<open>
  The entry of \<open>monitoredWallets\<close>. Times are milliseconds (\<open>Date.now()\<close>), passed in
  by the caller of each operation. \<open>publicKey\<close> is determined by the address and is
  left out. \<open>hadAccount\<close> is undefined until the first health check, which the only
  reader (a truthiness test) does not tell from \<open>false\<close>.
\<close>

record walletInfo =
  userId :: string
  lastCheck :: int
  transactionCount :: nat
  subscriptionId :: "nat option"
  logsSubscriptionId :: "nat option"
  lastActivity :: "int option"
  hadAccount :: bool

text \<open>
  The threat callback registered by the bot is the closure
  \<open>(address, threat) => this.handleThreatDetected(address, threat, userId, ctx)\<close>; it is
  represented by the user id it captures.
\<close>

type_synonym callback = string

record monitor =
  monitoredWallets :: "(string, walletInfo) js_map"
  threatCallbacks :: "(string, callback) js_map"
  isMonitoring :: bool

datatype severity = CRITICAL | WARNING

text \<open>
  What \<open>JSON.parse\<close> made of the AI's answer; a field may be missing. The \<open>threats\<close>
  field is missing (or falsy), an array of labels, or a truthy value that cannot be
  spread (a number, an object).
\<close>

datatype threats_field = Missing | Labels "string list" | NotIterable

record aiAnalysis =
  threatLevel :: "string option"
  confidence :: "rat option"
  ai_threats :: threats_field
  ai_recommendation :: "string option"
  ai_explanation :: "string option"

record profileSummary =
  ps_totalTransactions :: nat
  ps_accountAge :: int
  ps_patterns :: "string list"

record knownThreat =
  kt_type :: string
  kt_description :: string
  kt_riskLevel :: string
  kt_matchedPatterns :: "string list"

text \<open>
  The threat object built by the scorers, and the fields \<open>combineAnalysis\<close> adds to its
  copy (absent on a basic threat). The \<open>transaction\<close> and \<open>context\<close> fields are carried
  along for the prompt text only and are left out. The field \<open>type\<close> is written
  \<open>threat_type\<close>; where two objects of the source have a field of the same name, the
  fields of one carry a prefix (\<open>ai_\<close>, \<open>ps_\<close>, \<open>kt_\<close>, \<open>p_\<close>, \<open>logs_\<close>, \<open>tx_\<close>).
\<close>

record threat =
  threat_type :: severity
  source :: string
  riskScore :: nat
  threats :: "string list"
  timestamp :: int
  signature :: "string option"
  walletProfile :: "profileSummary option"
  aiAnalysis :: "aiAnalysis option"
  recommendation :: "string option"
  aiExplanation :: "string option"
  knownThreats :: "knownThreat list"

definition basicThreat ::
  "severity \<Rightarrow> string \<Rightarrow> nat \<Rightarrow> string list \<Rightarrow> int \<Rightarrow> string option \<Rightarrow> threat" where
  "basicThreat ty src score ts now sig =
     \<lparr>threat_type = ty, source = src, riskScore = score, threats = ts, timestamp = now,
      signature = sig, walletProfile = None, aiAnalysis = None, recommendation = None,
      aiExplanation = None, knownThreats = []\<rparr>"

section \<open>The account-change scorer\<close>

record accountInfo =
  lamports :: nat

text \<open>The pair \<open>(threats, riskScore)\<close> the scorers accumulate.\<close>

type_synonym findings = "string list \<times> nat"

definition flag :: "string \<Rightarrow> nat \<Rightarrow> findings \<Rightarrow> findings" where
  "flag label w a = (fst a @ [label], snd a + w)"

definition accountFindings :: "accountInfo option \<Rightarrow> findings" where
  "accountFindings accountInfo =
     (case accountInfo of
        None \<Rightarrow> flag ''Account closed or emptied'' 70 ([], 0)
      | Some info \<Rightarrow>
          if lamports info = 0 then flag ''Account drained of SOL'' 80 ([], 0) else ([], 0))"

definition analyzeAccountChange :: "int \<Rightarrow> accountInfo option \<Rightarrow> threat option" where
  "analyzeAccountChange now accountInfo =
     (let (ts, score) = accountFindings accountInfo in
      if score > 50 then
        Some (basicThreat (if score \<ge> 70 then CRITICAL else WARNING) ''Account Change''
                score ts now None)
      else None)"

section \<open>The transaction scorer\<close>

definition isKnownProgram :: "string \<Rightarrow> bool" where
  "isKnownProgram logLine =
     (let lowerLog = toLowerCase logLine in
      list_ex (\<lambda>program. str_includes lowerLog program)
        [''system program'', ''token program'', ''associated token'', ''spl-token'',
         ''jupiter'', ''raydium'', ''serum'', ''orca''])"

text \<open>
  \<open>log.match(/transfer.*?(\d+)/i)\<close>: the leftmost (case-insensitive) \<open>transfer\<close> that is
  followed on the same line by a digit; the group is the maximal run of digits that
  starts at the first digit after it.
\<close>

fun firstDigits :: "string \<Rightarrow> string option" where
  "firstDigits [] = None"
| "firstDigits (c # cs) =
     (if isDigit c then Some (takeWhile isDigit (c # cs))
      else if isLineTerminator c then None
      else firstDigits cs)"

fun matchTransfer :: "string \<Rightarrow> string option" where
  "matchTransfer [] = None"
| "matchTransfer (c # cs) =
     (if startsWith (toLowerCase (c # cs)) ''transfer'' then
        (case firstDigits (drop 8 (c # cs)) of
           Some ds \<Rightarrow> Some ds
         | None \<Rightarrow> matchTransfer cs)
      else matchTransfer cs)"

definition detectLargeTransfer :: "string \<Rightarrow> bool" where
  "detectLargeTransfer logLine =
     (case matchTransfer logLine of
        Some ds \<Rightarrow> parseInt ds > 1000000
      | None \<Rightarrow> False)"

definition detectSuspiciousProgram :: "string \<Rightarrow> bool" where
  "detectSuspiciousProgram logLine =
     (let lowerLog = toLowerCase logLine in
      list_ex (\<lambda>pattern. str_includes lowerLog pattern)
        [''drainer'', ''stealer'', ''malicious'', ''phishing'', ''unknown_program''])"

text \<open>
  The body of the \<open>forEach\<close> callback, for a log line that is a string. The source's
  variable \<open>log\<close> is written \<open>logLine\<close> throughout (\<open>log\<close> is the logarithm here).
\<close>

definition checkLog :: "string \<Rightarrow> findings \<Rightarrow> findings" where
  "checkLog logLine a0 =
     (let lowerLog = toLowerCase logLine;
          a1 = (if str_includes lowerLog ''transfer'' \<and> str_includes lowerLog ''authority''
                then flag ''Token authority transfer detected'' 60 a0 else a0);
          a2 = (if str_includes lowerLog ''invoke'' \<and> \<not> isKnownProgram logLine
                then flag ''Interaction with unknown program'' 30 a1 else a1);
          a3 = (if str_includes lowerLog ''transfer'' \<and> detectLargeTransfer logLine
                then flag ''Large token transfer detected'' 40 a2 else a2);
          a4 = (if detectSuspiciousProgram logLine
                then flag ''Interaction with flagged program'' 80 a3 else a3)
      in if str_includes lowerLog ''approve'' \<or> str_includes lowerLog ''allowance''
         then flag ''Token approval detected - potential drainer'' 50 a4 else a4)"

text \<open>
  An element of \<open>logs.logs\<close> that is not a string has no \<open>toLowerCase\<close>: the callback
  throws a TypeError at its first statement, and the findings pushed so far stay.
\<close>

datatype logval = LogStr string | LogOther

datatype completion = Returned | Thrown

fun forEachLog :: "logval list \<Rightarrow> findings \<Rightarrow> completion \<times> findings" where
  "forEachLog [] a = (Returned, a)"
| "forEachLog (LogOther # ls) a = (Thrown, a)"
| "forEachLog (LogStr s # ls) a = forEachLog ls (checkLog s a)"

text \<open>
  The \<open>logs\<close> argument: its signature and its \<open>logs\<close> field, which is an array (a missing
  field reads as the empty array) or a value without \<open>forEach\<close>.
\<close>

datatype logs_field = Lines "logval list" | NotAnArray

record logs =
  logs_signature :: string
  logs_logs :: logs_field

record meta =
  err :: bool
  postBalances :: "int list"
  preBalances :: "int list"

text \<open>
  A fetched transaction: \<open>meta\<close> may be null; \<open>accountKeys\<close> is
  \<open>transaction.transaction?.message?.accountKeys || []\<close>.
\<close>

record tx =
  tx_meta :: "meta option"
  accountKeys :: "string list"

text \<open>
  The loop over \<open>postBalances\<close>; \<open>preBalances[i] || 0\<close> is 0 past the end of
  \<open>preBalances\<close>.
\<close>

fun balanceLoop :: "int list \<Rightarrow> int list \<Rightarrow> findings \<Rightarrow> findings" where
  "balanceLoop [] pre a = a"
| "balanceLoop (post # posts) pre a =
     (let change = post - (case pre of [] \<Rightarrow> 0 | p # _ \<Rightarrow> p) in
      balanceLoop posts (tl pre)
        (if change < - 1000000 then flag ''Significant SOL balance decrease'' 30 a else a))"

definition structureCheck :: "tx \<Rightarrow> findings \<Rightarrow> findings" where
  "structureCheck t a0 =
     (case tx_meta t of
        None \<Rightarrow> a0
      | Some m \<Rightarrow>
          (let a1 = (if err m then flag ''Transaction failed - possible attack attempt'' 20 a0
                     else a0);
               a2 = (if length (accountKeys t) > 10
                     then flag ''High number of account interactions'' 25 a1 else a1)
           in balanceLoop (postBalances m) (preBalances m) a2))"

text \<open>
  \<open>txPerMinute > 2\<close> where \<open>txPerMinute = transactionCount / ((now - lastCheck) / 1000 / 60)\<close>,
  read in exact arithmetic: a zero period divides to \<open>Infinity\<close> (the count is positive
  here), a negative one to a negative rate. On the boundary \<open>now - lastCheck = 30000 * count\<close>
  the three floating-point divisions are exact, so the doubles agree with this reading
  for millisecond clocks.
\<close>

definition txPerMinuteHigh :: "nat \<Rightarrow> int \<Rightarrow> int \<Rightarrow> bool" where
  "txPerMinuteHigh count lastCheck_ms now =
     (let d = now - lastCheck_ms in
      if d = 0 then True else 0 < d \<and> 2 * d < int count * 60000)"

definition frequencyCheck :: "monitor \<Rightarrow> int \<Rightarrow> string \<Rightarrow> findings \<Rightarrow> findings" where
  "frequencyCheck mon now walletAddress a =
     (case Map_get (monitoredWallets mon) walletAddress of
        None \<Rightarrow> a
      | Some walletInfo \<Rightarrow>
          if transactionCount walletInfo > 5
             \<and> txPerMinuteHigh (transactionCount walletInfo) (lastCheck walletInfo) now
          then flag ''High transaction frequency detected'' 35 a else a)"

text \<open>The \<open>try\<close> block of \<open>analyzeTransaction\<close> with its \<open>catch\<close>.\<close>

definition catchAnalysisError :: "findings \<Rightarrow> findings" where
  "catchAnalysisError a = flag ''Analysis error occurred'' 10 a"

definition transactionFindings :: "monitor \<Rightarrow> int \<Rightarrow> string \<Rightarrow> tx \<Rightarrow> logs \<Rightarrow> findings" where
  "transactionFindings mon now walletAddress t lg =
     (case logs_logs lg of
        NotAnArray \<Rightarrow> catchAnalysisError ([], 0)
      | Lines logMessages \<Rightarrow>
          (case forEachLog logMessages ([], 0) of
             (Thrown, a) \<Rightarrow> catchAnalysisError a
           | (Returned, a) \<Rightarrow> frequencyCheck mon now walletAddress (structureCheck t a)))"

definition analyzeTransaction ::
  "monitor \<Rightarrow> int \<Rightarrow> string \<Rightarrow> tx option \<Rightarrow> logs \<Rightarrow> threat option" where
  "analyzeTransaction mon now walletAddress transaction lg =
     (case transaction of
        None \<Rightarrow> None
      | Some t \<Rightarrow>
          (let (ts, score) = transactionFindings mon now walletAddress t lg in
           if score > 40 then
             Some (basicThreat (if score \<ge> 70 then CRITICAL else WARNING)
                     ''Transaction Analysis'' score ts now (Some (logs_signature lg)))
           else None))"

section \<open>Watching and unwatching\<close>

text \<open>
  The outcome of a call to the RPC provider (or to Telegram, or to the AI service): a
  value, or a thrown error or rejected promise. The outcomes are inputs of the model.
\<close>

datatype 'a outcome = Ok 'a | Failed

definition new_monitor :: monitor where
  "new_monitor = \<lparr>monitoredWallets = [], threatCallbacks = [], isMonitoring = False\<rparr>"

definition startPeriodicChecks :: "monitor \<Rightarrow> monitor" where
  "startPeriodicChecks mon = (if isMonitoring mon then mon else mon\<lparr>isMonitoring := True\<rparr>)"

text \<open>
  \<open>startMonitoring\<close>. \<open>validKey\<close> says whether \<open>new PublicKey(walletAddress)\<close> returns;
  \<open>accountSub\<close> and \<open>logsSub\<close> are the outcomes of \<open>onAccountChange\<close> and \<open>onLogs\<close>.
  Every thrown error lands in the one \<open>catch\<close>, which returns \<open>false\<close> and undoes nothing.
\<close>

definition startMonitoring ::
  "bool \<Rightarrow> nat outcome \<Rightarrow> nat outcome \<Rightarrow> int \<Rightarrow> string \<Rightarrow> string \<Rightarrow> callback \<Rightarrow> monitor
   \<Rightarrow> bool \<times> monitor" where
  "startMonitoring validKey accountSub logsSub now walletAddress uid threatCallback mon =
     (if \<not> validKey then (False, mon)
      else
        let mon1 = mon\<lparr>
              monitoredWallets := Map_set (monitoredWallets mon) walletAddress
                \<lparr>userId = uid, lastCheck = now, transactionCount = 0, subscriptionId = None,
                 logsSubscriptionId = None, lastActivity = None, hadAccount = False\<rparr>,
              threatCallbacks := Map_set (threatCallbacks mon) walletAddress threatCallback\<rparr>
        in (case accountSub of
              Failed \<Rightarrow> (False, mon1)
            | Ok sid \<Rightarrow>
                (case logsSub of
                   Failed \<Rightarrow> (False, mon1)
                 | Ok lid \<Rightarrow>
                     (case Map_get (monitoredWallets mon1) walletAddress of
                        None \<Rightarrow> (False, mon1)
                      | Some walletInfo \<Rightarrow>
                          (True,
                           startPeriodicChecks (mon1\<lparr>
                             monitoredWallets := Map_set (monitoredWallets mon1) walletAddress
                               (walletInfo\<lparr>subscriptionId := Some sid,
                                           logsSubscriptionId := Some lid\<rparr>)\<rparr>))))))"

text \<open>A subscription id is tested for truthiness: 0 and a missing id are falsy.\<close>

definition truthy :: "nat option \<Rightarrow> bool" where
  "truthy v = (case v of None \<Rightarrow> False | Some n \<Rightarrow> n \<noteq> 0)"

text \<open>
  \<open>stopMonitoring\<close>. \<open>rmAccount\<close> and \<open>rmLogs\<close> are the outcomes of the two
  \<open>remove...Listener\<close> calls; a failure of either jumps to the \<open>catch\<close>, before the two
  \<open>delete\<close>s.
\<close>

definition stopMonitoring :: "unit outcome \<Rightarrow> unit outcome \<Rightarrow> string \<Rightarrow> monitor \<Rightarrow> monitor" where
  "stopMonitoring rmAccount rmLogs walletAddress mon =
     (case Map_get (monitoredWallets mon) walletAddress of
        None \<Rightarrow> mon
      | Some walletInfo \<Rightarrow>
          if truthy (subscriptionId walletInfo) \<and> rmAccount = Failed then mon
          else if truthy (logsSubscriptionId walletInfo) \<and> rmLogs = Failed then mon
          else mon\<lparr>monitoredWallets := Map_delete (monitoredWallets mon) walletAddress,
                   threatCallbacks := Map_delete (threatCallbacks mon) walletAddress\<rparr>)"

datatype lifecycle_call =
  Start bool "nat outcome" "nat outcome" int string string callback
| Stop "unit outcome" "unit outcome" string

fun lifecycle :: "lifecycle_call \<Rightarrow> monitor \<Rightarrow> monitor" where
  "lifecycle (Start validKey accountSub logsSub now walletAddress uid cb) mon =
     snd (startMonitoring validKey accountSub logsSub now walletAddress uid cb mon)"
| "lifecycle (Stop rmAccount rmLogs walletAddress) mon =
     stopMonitoring rmAccount rmLogs walletAddress mon"

text \<open>A sequence of \<open>startMonitoring\<close> and \<open>stopMonitoring\<close> calls, each run to its end.\<close>

fun lifecycles :: "lifecycle_call list \<Rightarrow> monitor \<Rightarrow> monitor" where
  "lifecycles [] mon = mon"
| "lifecycles (c # cs) mon = lifecycles cs (lifecycle c mon)"

section \<open>The threat analyzer\<close>

text \<open>A JavaScript \<open>Set\<close> of strings, in insertion order.\<close>

definition Set_add :: "string list \<Rightarrow> string \<Rightarrow> string list" where
  "Set_add s x = (if x \<in> set s then s else s @ [x])"

definition Set_from :: "string list \<Rightarrow> string list" where
  "Set_from xs = foldl Set_add [] xs"

record profile =
  firstSeen :: int
  totalTransactions :: nat
  patterns :: "string list"
  p_riskScore :: nat
  p_lastActivity :: int

record analyzer =
  openaiApiKey :: "string option"
  walletProfiles :: "(string, profile) js_map"

text \<open>The threat database, in the order \<open>initializeThreatDatabase\<close> fills it.\<close>

definition threatDatabase :: "(string \<times> string list \<times> string \<times> string) list" where
  "threatDatabase =
     [(''token_drainer'', [''approve'', ''transfer_all'', ''authority_change''],
         ''CRITICAL'', ''Token drainer contract detected''),
      (''phishing_site'', [''multiple_approvals'', ''unknown_program'', ''urgent_transfer''],
         ''HIGH'', ''Phishing attack pattern''),
      (''rug_pull'', [''liquidity_removal'', ''massive_sell'', ''dev_dump''],
         ''CRITICAL'', ''Rug pull activity detected'')]"

definition profilePatterns :: "string \<Rightarrow> string list \<Rightarrow> string list" where
  "profilePatterns logLine ps0 =
     (let lowerLog = toLowerCase logLine;
          ps1 = (if str_includes lowerLog ''transfer'' then Set_add ps0 ''transfer'' else ps0);
          ps2 = (if str_includes lowerLog ''approve'' then Set_add ps1 ''approve'' else ps1);
          ps3 = (if str_includes lowerLog ''authority''
                 then Set_add ps2 ''authority_change'' else ps2)
      in if str_includes lowerLog ''invoke'' then Set_add ps3 ''program_invoke'' else ps3)"

text \<open>
  \<open>updateWalletProfile\<close>; \<open>logLines\<close> is \<open>logs.logs\<close>, which the one caller fills with
  the threat's labels.
\<close>

definition updateWalletProfile :: "int \<Rightarrow> string \<Rightarrow> string list \<Rightarrow> analyzer \<Rightarrow> analyzer" where
  "updateWalletProfile now walletAddress logLines an =
     (let p0 = (case Map_get (walletProfiles an) walletAddress of
                  Some p \<Rightarrow> p
                | None \<Rightarrow> \<lparr>firstSeen = now, totalTransactions = 0, patterns = [],
                           p_riskScore = 0, p_lastActivity = now\<rparr>);
          p1 = p0\<lparr>totalTransactions := totalTransactions p0 + 1, p_lastActivity := now\<rparr>;
          p2 = p1\<lparr>patterns := foldl (\<lambda>ps l. profilePatterns l ps) (patterns p1) logLines\<rparr>
      in an\<lparr>walletProfiles := Map_set (walletProfiles an) walletAddress p2\<rparr>)"

text \<open>
  \<open>aiResponse.match(/\{[\s\S]*\}/)\<close>: from the first opening brace to the last closing
  brace after it.
\<close>

definition jsonMatch :: "string \<Rightarrow> string option" where
  "jsonMatch aiResponse =
     (let fromBrace = dropWhile (\<lambda>c. c \<noteq> CHR ''{'') aiResponse;
          toBrace = rev (dropWhile (\<lambda>c. c \<noteq> CHR ''}'') (rev fromBrace))
      in if toBrace = [] then None else Some toBrace)"

definition fallbackAnalysis :: aiAnalysis where
  "fallbackAnalysis =
     \<lparr>threatLevel = Some ''MEDIUM'', confidence = Some 50,
      ai_threats = Labels [''AI analysis incomplete''],
      ai_recommendation = Some ''Monitor closely'',
      ai_explanation = Some ''AI response could not be parsed''\<rparr>"

text \<open>
  \<open>parseAIResponse\<close>. \<open>parsed\<close> is the outcome of \<open>JSON.parse\<close> on the matched text, read
  only when there is a match: the object, or \<open>Failed\<close> for a SyntaxError.
\<close>

definition parseAIResponse :: "string \<Rightarrow> aiAnalysis outcome \<Rightarrow> aiAnalysis option" where
  "parseAIResponse aiResponse parsed =
     (case jsonMatch aiResponse of
        Some matched \<Rightarrow> (case parsed of Ok obj \<Rightarrow> Some obj | Failed \<Rightarrow> None)
      | None \<Rightarrow> Some fallbackAnalysis)"

text \<open>
  The outcome of the request to the AI service: no answer within the 10 s timeout, an
  error (axios throws on a status outside 2xx; reading \<open>choices[0].message.content\<close>
  of an answer of another shape throws as well), or the content of the first choice
  together with what \<open>JSON.parse\<close> makes of its matched part.
\<close>

datatype ai_response = Timeout | ErrorResponse | Body string "aiAnalysis outcome"

definition getAIAnalysis :: "ai_response \<Rightarrow> aiAnalysis option" where
  "getAIAnalysis response =
     (case response of
        Timeout \<Rightarrow> None
      | ErrorResponse \<Rightarrow> None
      | Body aiResponse parsed \<Rightarrow> parseAIResponse aiResponse parsed)"

definition patternMatches :: "string list \<Rightarrow> string list \<Rightarrow> string list" where
  "patternMatches labels pats =
     filter (\<lambda>pattern. list_ex (\<lambda>t. str_includes (toLowerCase t) (toLowerCase pattern)) labels)
       pats"

text \<open>\<open>matchKnownThreats\<close>, on the threat's labels (the only field it reads).\<close>

definition matchKnownThreats :: "string list \<Rightarrow> knownThreat list" where
  "matchKnownThreats labels =
     concat (map (\<lambda>(threatType, pats, level, description).
        if length (patternMatches labels pats) \<ge> 2
        then [\<lparr>kt_type = threatType, kt_description = description, kt_riskLevel = level,
               kt_matchedPatterns = patternMatches labels pats\<rparr>]
        else []) threatDatabase)"

definition confidenceAbove80 :: "aiAnalysis \<Rightarrow> bool" where
  "confidenceAbove80 ai = (case confidence ai of Some c \<Rightarrow> c > 80 | None \<Rightarrow> False)"

text \<open>
  The \<open>if (aiAnalysis)\<close> block of \<open>combineAnalysis\<close>. Spreading a \<open>threats\<close> value that is
  not iterable throws a TypeError (\<open>Failed\<close>).
\<close>

definition enhanceWithAI :: "aiAnalysis \<Rightarrow> threat \<Rightarrow> threat outcome" where
  "enhanceWithAI ai e0 =
     (let e1 = e0\<lparr>aiAnalysis := Some ai\<rparr>;
          e2 = (if confidenceAbove80 ai then
                  (if threatLevel ai = Some ''CRITICAL''
                   then e1\<lparr>riskScore := max (riskScore e1) 90\<rparr>
                   else if threatLevel ai = Some ''HIGH''
                   then e1\<lparr>riskScore := max (riskScore e1) 75\<rparr>
                   else e1)
                else e1)
      in case ai_threats ai of
           NotIterable \<Rightarrow> Failed
         | Missing \<Rightarrow>
             Ok (e2\<lparr>recommendation := ai_recommendation ai,
                    aiExplanation := ai_explanation ai\<rparr>)
         | Labels ls \<Rightarrow>
             Ok (e2\<lparr>threats := Set_from (threats e2 @ ls),
                    recommendation := ai_recommendation ai,
                    aiExplanation := ai_explanation ai\<rparr>))"

text \<open>The "wallet profile context" block of \<open>combineAnalysis\<close>.\<close>

definition withProfile :: "int \<Rightarrow> analyzer \<Rightarrow> string \<Rightarrow> threat \<Rightarrow> threat" where
  "withProfile now an walletAddress b =
     (case Map_get (walletProfiles an) walletAddress of
        None \<Rightarrow> b
      | Some p \<Rightarrow>
          b\<lparr>walletProfile := Some
              \<lparr>ps_totalTransactions = totalTransactions p,
               ps_accountAge = (now - firstSeen p) div (1000 * 60 * 60 * 24),
               ps_patterns = patterns p\<rparr>\<rparr>)"

definition combineAnalysis ::
  "int \<Rightarrow> analyzer \<Rightarrow> threat option \<Rightarrow> aiAnalysis option \<Rightarrow> string \<Rightarrow> threat option outcome"
  where
  "combineAnalysis now an basic ai walletAddress =
     (case basic of
        None \<Rightarrow> Ok None
      | Some b \<Rightarrow>
          let e0 = withProfile now an walletAddress b in
          (case (case ai of None \<Rightarrow> Ok e0 | Some a \<Rightarrow> enhanceWithAI a e0) of
             Failed \<Rightarrow> Failed
           | Ok e1 \<Rightarrow>
               let known = matchKnownThreats (threats e1) in
               Ok (Some (if length known > 0
                         then e1\<lparr>knownThreats := known,
                                 riskScore := max (riskScore e1) 80\<rparr>
                         else e1))))"

definition keyConfigured :: "string option \<Rightarrow> bool" where
  "keyConfigured k =
     (case k of None \<Rightarrow> False | Some s \<Rightarrow> s \<noteq> [] \<and> s \<noteq> ''your_openai_key_here'')"

text \<open>
  \<open>analyzeTransactionWithAI\<close>: the analyzer's state after the call and the threat it
  returns. The \<open>catch\<close> returns the basic threat; the profile update stays.
\<close>

definition analyzeTransactionWithAI ::
  "int \<Rightarrow> ai_response \<Rightarrow> analyzer \<Rightarrow> string \<Rightarrow> string list \<Rightarrow> threat option
   \<Rightarrow> analyzer \<times> threat option" where
  "analyzeTransactionWithAI now response an walletAddress logLines basic =
     (let an1 = updateWalletProfile now walletAddress logLines an;
          ai = (if keyConfigured (openaiApiKey an) then getAIAnalysis response else None)
      in case combineAnalysis now an1 basic ai walletAddress of
           Ok enhanced \<Rightarrow> (an1, enhanced)
         | Failed \<Rightarrow> (an1, basic))"

section \<open>The bot: routing events to alerts\<close>

text \<open>
  What the bot hands to \<open>sendWithOctopus\<close> (which swallows every Telegram error) or, in
  the \<open>catch\<close>, to \<open>sendMessage\<close>: the threat alert for a user and a wallet, the extra
  critical alert, the fallback notification with the basic score.
\<close>

datatype notification =
  ThreatAlert string string threat
| CriticalAlert string
| FallbackAlert string string nat

text \<open>
  The monitor, the analyzer, the global \<open>threatAlerts\<close> map (its key
  \<open>`${walletAddress}-${Date.now()}`\<close> as a pair), the notifications sent so far, and the
  addresses \<open>getAccountInfo\<close> was called for so far. Handlers are run one after the
  other, each to its end; \<open>performHealthCheck\<close> is also given in the two halves around
  its await, so that another handler can run in between.
\<close>

record bot =
  transactionMonitor :: monitor
  threatAnalyzer :: analyzer
  threatAlerts :: "(string \<times> int, string \<times> threat option) js_map"
  sent :: "notification list"
  getAccountInfo_calls :: "string list"

definition handleThreatDetected ::
  "int \<Rightarrow> ai_response \<Rightarrow> string \<Rightarrow> threat \<Rightarrow> string \<Rightarrow> bot \<Rightarrow> bot" where
  "handleThreatDetected now response walletAddress basic uid b =
     (let (an1, enhanced) =
            analyzeTransactionWithAI now response (threatAnalyzer b) walletAddress
              (threats basic) (Some basic);
          b1 = b\<lparr>threatAnalyzer := an1,
                 threatAlerts := Map_set (threatAlerts b) (walletAddress, now) (uid, enhanced)\<rparr>
      in case enhanced of
           None \<Rightarrow> b1\<lparr>sent := sent b1 @ [FallbackAlert uid walletAddress (riskScore basic)]\<rparr>
         | Some e \<Rightarrow>
             b1\<lparr>sent := sent b1 @ [ThreatAlert uid walletAddress e]
                    @ (if riskScore e \<ge> 80 then [CriticalAlert uid] else [])\<rparr>)"

definition sendThreatAlert :: "int \<Rightarrow> ai_response \<Rightarrow> string \<Rightarrow> threat \<Rightarrow> bot \<Rightarrow> bot" where
  "sendThreatAlert now response walletAddress t b =
     (case Map_get (threatCallbacks (transactionMonitor b)) walletAddress of
        None \<Rightarrow> b
      | Some uid \<Rightarrow> handleThreatDetected now response walletAddress t uid b)"

definition handleAccountChange ::
  "int \<Rightarrow> ai_response \<Rightarrow> string \<Rightarrow> accountInfo option \<Rightarrow> bot \<Rightarrow> bot" where
  "handleAccountChange now response walletAddress info b =
     (case Map_get (monitoredWallets (transactionMonitor b)) walletAddress of
        None \<Rightarrow> b
      | Some walletInfo \<Rightarrow>
          (case analyzeAccountChange now info of
             None \<Rightarrow> b
           | Some t \<Rightarrow> sendThreatAlert now response walletAddress t b))"

text \<open>
  \<open>handleTransactionLogs\<close>. It first counts the event in the wallet's entry
  (\<open>recordActivity\<close>). \<open>fetched\<close> is the outcome of \<open>getTransaction\<close>: a thrown error
  or timeout (\<open>Failed\<close>), null (\<open>Ok None\<close>) or the transaction.
\<close>

definition recordActivity :: "int \<Rightarrow> string \<Rightarrow> walletInfo \<Rightarrow> monitor \<Rightarrow> monitor" where
  "recordActivity now walletAddress walletInfo mon =
     mon\<lparr>monitoredWallets := Map_set (monitoredWallets mon) walletAddress
           (walletInfo\<lparr>transactionCount := transactionCount walletInfo + 1,
                       lastActivity := Some now\<rparr>)\<rparr>"

definition handleTransactionLogs ::
  "int \<Rightarrow> tx option outcome \<Rightarrow> ai_response \<Rightarrow> string \<Rightarrow> logs \<Rightarrow> bot \<Rightarrow> bot" where
  "handleTransactionLogs now fetched response walletAddress lg b =
     (let mon = transactionMonitor b in
      case Map_get (monitoredWallets mon) walletAddress of
        None \<Rightarrow> b
      | Some walletInfo \<Rightarrow>
          let mon1 = recordActivity now walletAddress walletInfo mon;
              b1 = b\<lparr>transactionMonitor := mon1\<rparr>
          in (case fetched of
                Failed \<Rightarrow> b1
              | Ok transaction \<Rightarrow>
                  (case analyzeTransaction mon1 now walletAddress transaction lg of
                     None \<Rightarrow> b1
                   | Some t \<Rightarrow> sendThreatAlert now response walletAddress t b1)))"

section \<open>The periodic sweep\<close>

text \<open>
  \<open>performHealthCheck\<close> suspends once, at \<open>await getAccountInfo\<close>. What runs after the
  await is \<open>resumeHealthCheck\<close>: it works on the entry \<open>walletInfo\<close> that was read before
  the await and on the bot as it is when the answer arrives, and it ends with
  \<open>this.monitoredWallets.set(walletAddress, walletInfo)\<close>, without looking the wallet up
  again.
\<close>

definition resumeHealthCheck ::
  "int \<Rightarrow> accountInfo option outcome \<Rightarrow> ai_response \<Rightarrow> string \<Rightarrow> walletInfo \<Rightarrow> bot \<Rightarrow> bot"
  where
  "resumeHealthCheck now fetched response walletAddress walletInfo b0 =
     (case fetched of
        Failed \<Rightarrow> b0
      | Ok info \<Rightarrow>
          let b1 = (if info = None \<and> hadAccount walletInfo
                    then sendThreatAlert now response walletAddress
                           (basicThreat CRITICAL ''Health Check'' 90
                              [''Account no longer exists - possible drain''] now None) b0
                    else b0);
              mon = transactionMonitor b1
          in b1\<lparr>transactionMonitor :=
                 mon\<lparr>monitoredWallets := Map_set (monitoredWallets mon) walletAddress
                       (walletInfo\<lparr>hadAccount := (info \<noteq> None)\<rparr>)\<rparr>\<rparr>)"

text \<open>
  What runs before the await: the lookup of the entry (nothing more happens for a wallet
  that is not registered) and the call of \<open>getAccountInfo\<close>. It gives the entry read
  and the bot at the suspension point.
\<close>

definition beginHealthCheck :: "string \<Rightarrow> bot \<Rightarrow> (walletInfo \<times> bot) option" where
  "beginHealthCheck walletAddress b =
     (case Map_get (monitoredWallets (transactionMonitor b)) walletAddress of
        None \<Rightarrow> None
      | Some walletInfo \<Rightarrow>
          Some (walletInfo,
                b\<lparr>getAccountInfo_calls := getAccountInfo_calls b @ [walletAddress]\<rparr>))"





text \<open>
  Unwatching, as the bot's removal handlers do it: they call \<open>stopMonitoring\<close> on the
  monitor and touch nothing of the analyzer.
\<close>

definition unwatch :: "unit outcome \<Rightarrow> unit outcome \<Rightarrow> string \<Rightarrow> bot \<Rightarrow> bot" where
  "unwatch rmAccount rmLogs walletAddress b =
     b\<lparr>transactionMonitor := stopMonitoring rmAccount rmLogs walletAddress (transactionMonitor b)\<rparr>"

section \<open>Notions used in the properties\<close>

text \<open>
  The weight each finding label stands for: the constant added to \<open>riskScore\<close> next to
  the \<open>push\<close> of that label in the two scorers.
\<close>

definition findingWeight :: "string \<Rightarrow> nat" where
  "findingWeight label =
     (if label = ''Account closed or emptied'' then 70
      else if label = ''Account drained of SOL'' then 80
      else if label = ''Token authority transfer detected'' then 60
      else if label = ''Interaction with unknown program'' then 30
      else if label = ''Large token transfer detected'' then 40
      else if label = ''Interaction with flagged program'' then 80
      else if label = ''Token approval detected - potential drainer'' then 50
      else if label = ''Transaction failed - possible attack attempt'' then 20
      else if label = ''High number of account interactions'' then 25
      else if label = ''Significant SOL balance decrease'' then 30
      else if label = ''High transaction frequency detected'' then 35
      else if label = ''Analysis error occurred'' then 10
      else 0)"

definition weighed :: "findings \<Rightarrow> bool" where
  "weighed a = (snd a = sum_list (map findingWeight (fst a)))"

text \<open>Every label of the findings is one of the scorers' labels (it has a weight).\<close>

definition fromScorer :: "findings \<Rightarrow> bool" where
  "fromScorer a = (\<forall>l \<in> set (fst a). findingWeight l \<noteq> 0)"

text \<open>
  The two maps of the monitor hold the same addresses: a wallet has a threat callback
  if and only if it has a registry entry.
\<close>

definition registryConsistent :: "monitor \<Rightarrow> bool" where
  "registryConsistent mon =
     (set (Map_keys (monitoredWallets mon)) = set (Map_keys (threatCallbacks mon)))"

text \<open>
  The deduplication keys (wallet address, triggering signature) of the threat alerts
  among the notifications sent, one per alert, in the order sent.
\<close>

fun alertKey :: "notification \<Rightarrow> (string \<times> string option) list" where
  "alertKey (ThreatAlert uid walletAddress th) = [(walletAddress, signature th)]"
| "alertKey (CriticalAlert uid) = []"
| "alertKey (FallbackAlert uid walletAddress score) = []"

definition alertKeys :: "notification list \<Rightarrow> (string \<times> string option) list" where
  "alertKeys ns = concat (map alertKey ns)"

text \<open>
  The bot as its constructor leaves it, with the given \<open>OPENAI_API_KEY\<close>, and the bot
  after successful \<open>startMonitoring\<close> calls for the given wallets of one user at time 0.
\<close>

definition new_bot :: "string option \<Rightarrow> bot" where
  "new_bot key =
     \<lparr>transactionMonitor = new_monitor,
      threatAnalyzer = \<lparr>openaiApiKey = key, walletProfiles = []\<rparr>,
      threatAlerts = [], sent = [], getAccountInfo_calls = []\<rparr>"

definition watching :: "string option \<Rightarrow> string list \<Rightarrow> string \<Rightarrow> bot" where
  "watching key walletAddresses uid =
     (new_bot key)\<lparr>transactionMonitor :=
        lifecycles (map (\<lambda>w. Start True (Ok 1) (Ok 2) 0 w uid uid) walletAddresses)
          new_monitor\<rparr>"

section \<open>The score is the sum of the weights\<close>

lemma findingWeight_simps:
  "findingWeight ''Account closed or emptied'' = 70"
  "findingWeight ''Account drained of SOL'' = 80"
  "findingWeight ''Token authority transfer detected'' = 60"
  "findingWeight ''Interaction with unknown program'' = 30"
  "findingWeight ''Large token transfer detected'' = 40"
  "findingWeight ''Interaction with flagged program'' = 80"
  "findingWeight ''Token approval detected - potential drainer'' = 50"
  "findingWeight ''Transaction failed - possible attack attempt'' = 20"
  "findingWeight ''High number of account interactions'' = 25"
  "findingWeight ''Significant SOL balance decrease'' = 30"
  "findingWeight ''High transaction frequency detected'' = 35"
  "findingWeight ''Analysis error occurred'' = 10"
  by (simp_all add: findingWeight_def)

lemma weighed_empty: "weighed ([], 0)"
  by (simp add: weighed_def)

lemma weighed_flag: "weighed a \<Longrightarrow> findingWeight label = w \<Longrightarrow> weighed (flag label w a)"
  by (simp add: weighed_def flag_def)

lemma weighed_checkLog: "weighed a \<Longrightarrow> weighed (checkLog s a)"
  unfolding checkLog_def Let_def
  by (intro weighed_flag | simp only: findingWeight_simps if_split | rule conjI impI)+

lemma weighed_forEachLog: "weighed a \<Longrightarrow> weighed (snd (forEachLog ls a))"
  by (induction ls a rule: forEachLog.induct) (simp_all add: weighed_checkLog)

lemma weighed_balanceLoop: "weighed a \<Longrightarrow> weighed (balanceLoop posts pre a)"
  by (induction posts pre a rule: balanceLoop.induct)
     (simp_all add: Let_def weighed_flag findingWeight_simps)

lemma weighed_structureCheck: "weighed a \<Longrightarrow> weighed (structureCheck t a)"
  by (simp add: structureCheck_def Let_def weighed_balanceLoop weighed_flag findingWeight_simps
      split: option.splits)

lemma weighed_frequencyCheck: "weighed a \<Longrightarrow> weighed (frequencyCheck mon now w a)"
  by (simp add: frequencyCheck_def weighed_flag findingWeight_simps split: option.splits)

lemma weighed_transactionFindings: "weighed (transactionFindings mon now w t lg)"
proof (cases "logs_logs lg")
  case NotAnArray
  then show ?thesis
    by (simp add: transactionFindings_def catchAnalysisError_def weighed_flag weighed_empty
        findingWeight_simps)
next
  case (Lines ls)
  have fe: "weighed (snd (forEachLog ls ([], 0)))"
    by (rule weighed_forEachLog [OF weighed_empty])
  obtain c a where ca: "forEachLog ls ([], 0) = (c, a)" by (cases "forEachLog ls ([], 0)")
  with fe have wa: "weighed a" by simp
  show ?thesis
  proof (cases c)
    case Returned
    with Lines ca wa show ?thesis
      by (simp add: transactionFindings_def weighed_frequencyCheck weighed_structureCheck)
  next
    case Thrown
    with Lines ca wa show ?thesis
      by (simp add: transactionFindings_def catchAnalysisError_def weighed_flag
          findingWeight_simps)
  qed
qed

lemma analyzeTransaction_Some:
  "analyzeTransaction mon now w (Some t) lg =
     (if 40 < snd (transactionFindings mon now w t lg)
      then Some (basicThreat
             (if 70 \<le> snd (transactionFindings mon now w t lg) then CRITICAL else WARNING)
             ''Transaction Analysis'' (snd (transactionFindings mon now w t lg))
             (fst (transactionFindings mon now w t lg)) now (Some (logs_signature lg)))
      else None)"
  by (simp add: analyzeTransaction_def split: prod.splits)

lemma analyzeAccountChange_eq:
  "analyzeAccountChange now info =
     (if 50 < snd (accountFindings info)
      then Some (basicThreat (if 70 \<le> snd (accountFindings info) then CRITICAL else WARNING)
             ''Account Change'' (snd (accountFindings info)) (fst (accountFindings info))
             now None)
      else None)"
  by (simp add: analyzeAccountChange_def split: prod.splits)

text \<open>
  C3, as the code has it. The score of every evaluation the transaction scorer returns
  is the plain sum of the weights of its findings. Nothing clamps it: it is never
  negative, and it exceeds 100 when enough rules fire.
\<close>

theorem transaction_score_is_sum_of_weights:
  "analyzeTransaction mon now w transaction lg = Some th \<Longrightarrow>
     riskScore th = sum_list (map findingWeight (threats th))"
proof -
  assume a: "analyzeTransaction mon now w transaction lg = Some th"
  then obtain t where t: "transaction = Some t"
    by (cases transaction) (simp_all add: analyzeTransaction_def)
  have "weighed (transactionFindings mon now w t lg)"
    by (rule weighed_transactionFindings)
  then have s: "snd (transactionFindings mon now w t lg)
      = sum_list (map findingWeight (fst (transactionFindings mon now w t lg)))"
    by (simp add: weighed_def)
  from a t have "th = basicThreat
       (if 70 \<le> snd (transactionFindings mon now w t lg) then CRITICAL else WARNING)
       ''Transaction Analysis'' (snd (transactionFindings mon now w t lg))
       (fst (transactionFindings mon now w t lg)) now (Some (logs_signature lg))"
    by (simp add: analyzeTransaction_Some split: if_splits)
  then have "riskScore th = snd (transactionFindings mon now w t lg)"
    and "threats th = fst (transactionFindings mon now w t lg)"
    by (simp_all add: basicThreat_def)
  with s show ?thesis by simp
qed

theorem transaction_score_is_sum_of_weights_witness:
  "analyzeTransaction new_monitor 0 ''W'' (Some \<lparr>tx_meta = None, accountKeys = []\<rparr>)
     \<lparr>logs_signature = ''sig'', logs_logs = Lines [LogStr ''Transfer authority to Drainer'']\<rparr>
   = Some (basicThreat CRITICAL ''Transaction Analysis'' 140
        [''Token authority transfer detected'', ''Interaction with flagged program''] 0
        (Some ''sig''))
   \<and> riskScore (basicThreat CRITICAL ''Transaction Analysis'' 140
        [''Token authority transfer detected'', ''Interaction with flagged program''] 0
        (Some ''sig''))
     = sum_list (map findingWeight
        (threats (basicThreat CRITICAL ''Transaction Analysis'' 140
        [''Token authority transfer detected'', ''Interaction with flagged program''] 0
        (Some ''sig''))))"
proof -
  have h: "analyzeTransaction new_monitor 0 ''W'' (Some \<lparr>tx_meta = None, accountKeys = []\<rparr>)
     \<lparr>logs_signature = ''sig'', logs_logs = Lines [LogStr ''Transfer authority to Drainer'']\<rparr>
   = Some (basicThreat CRITICAL ''Transaction Analysis'' 140
        [''Token authority transfer detected'', ''Interaction with flagged program''] 0
        (Some ''sig''))"
    by code_simp
  from h transaction_score_is_sum_of_weights [OF h] show ?thesis by (rule conjI)
qed

text \<open>
  C3 as stated fails: one log line that matches the authority-transfer rule (60) and the
  flagged-program rule (80) gives an evaluation with score 140, above 100.
\<close>

theorem transaction_score_exceeds_100:
  "map_option riskScore
     (analyzeTransaction new_monitor 0 ''W'' (Some \<lparr>tx_meta = None, accountKeys = []\<rparr>)
        \<lparr>logs_signature = ''sig'',
         logs_logs = Lines [LogStr ''Transfer authority to Drainer'']\<rparr>) = Some 140
   \<and> map_option threats
     (analyzeTransaction new_monitor 0 ''W'' (Some \<lparr>tx_meta = None, accountKeys = []\<rparr>)
        \<lparr>logs_signature = ''sig'',
         logs_logs = Lines [LogStr ''Transfer authority to Drainer'']\<rparr>)
     = Some [''Token authority transfer detected'', ''Interaction with flagged program'']"
  by code_simp

section \<open>Reporting thresholds and severity tiers\<close>

text \<open>
  C4. The transaction scorer returns a threat exactly when its score is above 40 (and
  returns null without scoring when the transaction is null), the account-snapshot
  scorer exactly when its score is above 50. A returned threat carries that score, and
  is CRITICAL exactly when the score is at least 70 and WARNING otherwise. For an event
  whose score stays at or below the threshold the handlers send nothing and store no
  alert.
\<close>

theorem reporting_thresholds_and_tiers:
  "(analyzeTransaction mon now w (Some t) lg \<noteq> None)
      = (40 < snd (transactionFindings mon now w t lg))
   \<and> analyzeTransaction mon now w None lg = None
   \<and> (analyzeAccountChange now info \<noteq> None) = (50 < snd (accountFindings info))
   \<and> (analyzeTransaction mon now w (Some t) lg = Some th \<longrightarrow>
        riskScore th = snd (transactionFindings mon now w t lg)
        \<and> (threat_type th = CRITICAL) = (70 \<le> riskScore th)
        \<and> (threat_type th = WARNING) = (riskScore th < 70))
   \<and> (analyzeAccountChange now info = Some th' \<longrightarrow>
        riskScore th' = snd (accountFindings info)
        \<and> (threat_type th' = CRITICAL) = (70 \<le> riskScore th')
        \<and> (threat_type th' = WARNING) = (riskScore th' < 70))
   \<and> (Map_get (monitoredWallets (transactionMonitor b)) w2 = Some walletInfo
        \<and> snd (transactionFindings (recordActivity now2 w2 walletInfo (transactionMonitor b))
                 now2 w2 t2 lg2) \<le> 40 \<longrightarrow>
        sent (handleTransactionLogs now2 (Ok (Some t2)) response w2 lg2 b) = sent b
        \<and> threatAlerts (handleTransactionLogs now2 (Ok (Some t2)) response w2 lg2 b)
            = threatAlerts b)
   \<and> (snd (accountFindings info2) \<le> 50 \<longrightarrow>
        sent (handleAccountChange now2 response w2 info2 b) = sent b
        \<and> threatAlerts (handleAccountChange now2 response w2 info2 b) = threatAlerts b)"
proof (intro conjI impI)
  show "(analyzeTransaction mon now w (Some t) lg \<noteq> None)
      = (40 < snd (transactionFindings mon now w t lg))"
    by (simp add: analyzeTransaction_Some)
  show "analyzeTransaction mon now w None lg = None"
    by (simp add: analyzeTransaction_def)
  show "(analyzeAccountChange now info \<noteq> None) = (50 < snd (accountFindings info))"
    by (simp add: analyzeAccountChange_eq)
next
  assume a: "analyzeTransaction mon now w (Some t) lg = Some th"
  then show "riskScore th = snd (transactionFindings mon now w t lg)"
    by (auto simp: analyzeTransaction_Some basicThreat_def split: if_splits)
  from a show "(threat_type th = CRITICAL) = (70 \<le> riskScore th)"
    by (auto simp: analyzeTransaction_Some basicThreat_def split: if_splits)
  from a show "(threat_type th = WARNING) = (riskScore th < 70)"
    by (auto simp: analyzeTransaction_Some basicThreat_def split: if_splits)
next
  assume a: "analyzeAccountChange now info = Some th'"
  then show "riskScore th' = snd (accountFindings info)"
    by (auto simp: analyzeAccountChange_eq basicThreat_def split: if_splits)
  from a show "(threat_type th' = CRITICAL) = (70 \<le> riskScore th')"
    by (auto simp: analyzeAccountChange_eq basicThreat_def split: if_splits)
  from a show "(threat_type th' = WARNING) = (riskScore th' < 70)"
    by (auto simp: analyzeAccountChange_eq basicThreat_def split: if_splits)
next
  assume a: "Map_get (monitoredWallets (transactionMonitor b)) w2 = Some walletInfo
        \<and> snd (transactionFindings (recordActivity now2 w2 walletInfo (transactionMonitor b))
                 now2 w2 t2 lg2) \<le> 40"
  then show "sent (handleTransactionLogs now2 (Ok (Some t2)) response w2 lg2 b) = sent b"
    by (simp add: handleTransactionLogs_def analyzeTransaction_Some Let_def)
  from a show "threatAlerts (handleTransactionLogs now2 (Ok (Some t2)) response w2 lg2 b)
            = threatAlerts b"
    by (simp add: handleTransactionLogs_def analyzeTransaction_Some Let_def)
next
  assume a: "snd (accountFindings info2) \<le> 50"
  then show "sent (handleAccountChange now2 response w2 info2 b) = sent b"
    by (simp add: handleAccountChange_def analyzeAccountChange_eq split: option.splits)
  from a show "threatAlerts (handleAccountChange now2 response w2 info2 b) = threatAlerts b"
    by (simp add: handleAccountChange_def analyzeAccountChange_eq split: option.splits)
qed

theorem reporting_thresholds_and_tiers_witness:
  "analyzeTransaction new_monitor 0 ''W'' (Some \<lparr>tx_meta = None, accountKeys = []\<rparr>)
     \<lparr>logs_signature = ''sig'', logs_logs = Lines [LogStr ''Instruction: Approve'']\<rparr>
   = Some (basicThreat WARNING ''Transaction Analysis'' 50
        [''Token approval detected - potential drainer''] 0 (Some ''sig''))
   \<and> (threat_type (basicThreat WARNING ''Transaction Analysis'' 50
        [''Token approval detected - potential drainer''] 0 (Some ''sig'')) = WARNING)
     = (riskScore (basicThreat WARNING ''Transaction Analysis'' 50
        [''Token approval detected - potential drainer''] 0 (Some ''sig'')) < 70)
   \<and> analyzeAccountChange 0 None
   = Some (basicThreat CRITICAL ''Account Change'' 70 [''Account closed or emptied''] 0 None)
   \<and> (threat_type (basicThreat CRITICAL ''Account Change'' 70 [''Account closed or emptied''] 0
        None) = CRITICAL)
     = (70 \<le> riskScore (basicThreat CRITICAL ''Account Change'' 70
        [''Account closed or emptied''] 0 None))
   \<and> sent (handleTransactionLogs 1000 (Ok (Some \<lparr>tx_meta = None, accountKeys = []\<rparr>)) Timeout
        ''W'' \<lparr>logs_signature = ''s1'', logs_logs = Lines [LogStr ''Program log: Transfer'']\<rparr>
        (watching None [''W''] ''U'')) = sent (watching None [''W''] ''U'')
   \<and> sent (handleAccountChange 1000 Timeout ''W'' (Some \<lparr>lamports = 5\<rparr>)
        (watching None [''W''] ''U'')) = sent (watching None [''W''] ''U'')"
proof -
  have h1: "analyzeTransaction new_monitor 0 ''W'' (Some \<lparr>tx_meta = None, accountKeys = []\<rparr>)
     \<lparr>logs_signature = ''sig'', logs_logs = Lines [LogStr ''Instruction: Approve'']\<rparr>
   = Some (basicThreat WARNING ''Transaction Analysis'' 50
        [''Token approval detected - potential drainer''] 0 (Some ''sig''))"
    by code_simp
  have h2: "analyzeAccountChange 0 None
   = Some (basicThreat CRITICAL ''Account Change'' 70 [''Account closed or emptied''] 0 None)"
    by code_simp
  have h3: "Map_get (monitoredWallets (transactionMonitor (watching None [''W''] ''U''))) ''W''
     = Some \<lparr>userId = ''U'', lastCheck = 0, transactionCount = 0, subscriptionId = Some 1,
             logsSubscriptionId = Some 2, lastActivity = None, hadAccount = False\<rparr>
     \<and> snd (transactionFindings (recordActivity 1000 ''W''
           \<lparr>userId = ''U'', lastCheck = 0, transactionCount = 0, subscriptionId = Some 1,
            logsSubscriptionId = Some 2, lastActivity = None, hadAccount = False\<rparr>
           (transactionMonitor (watching None [''W''] ''U'')))
         1000 ''W'' \<lparr>tx_meta = None, accountKeys = []\<rparr>
         \<lparr>logs_signature = ''s1'', logs_logs = Lines [LogStr ''Program log: Transfer'']\<rparr>) \<le> 40"
    by code_simp
  have h4: "snd (accountFindings (Some \<lparr>lamports = 5\<rparr>)) \<le> 50"
    by code_simp
  note T = reporting_thresholds_and_tiers [where mon = new_monitor and now = 0 and w = "''W''"
      and t = "\<lparr>tx_meta = None, accountKeys = []\<rparr>"
      and lg = "\<lparr>logs_signature = ''sig'', logs_logs = Lines [LogStr ''Instruction: Approve'']\<rparr>"
      and info = None
      and th = "basicThreat WARNING ''Transaction Analysis'' 50
        [''Token approval detected - potential drainer''] 0 (Some ''sig'')"
      and th' = "basicThreat CRITICAL ''Account Change'' 70 [''Account closed or emptied''] 0 None"
      and b = "watching None [''W''] ''U''" and ?w2.0 = "''W''" and ?now2.0 = 1000
      and walletInfo = "\<lparr>userId = ''U'', lastCheck = 0, transactionCount = 0,
            subscriptionId = Some 1, logsSubscriptionId = Some 2, lastActivity = None,
            hadAccount = False\<rparr>"
      and ?t2.0 = "\<lparr>tx_meta = None, accountKeys = []\<rparr>"
      and ?lg2.0 = "\<lparr>logs_signature = ''s1'', logs_logs = Lines [LogStr ''Program log: Transfer'']\<rparr>"
      and ?info2.0 = "Some \<lparr>lamports = 5\<rparr>" and response = Timeout]
  from T h1 h2 h3 h4 show ?thesis by blast
qed

section \<open>Account drained or closed\<close>

text \<open>
  C8. For an account-change event whose account is absent, or present with zero
  lamports (whatever it held before), the account-snapshot scorer returns a threat: it
  is CRITICAL, its score is at least 70, one of its findings weighs at least 70, and in
  the zero-lamports case the score is at least 80.
\<close>

theorem account_drain_is_critical:
  "info = None \<or> (\<exists>i. info = Some i \<and> lamports i = 0) \<Longrightarrow>
     \<exists>th. analyzeAccountChange now info = Some th
        \<and> threat_type th = CRITICAL
        \<and> 70 \<le> riskScore th
        \<and> (\<exists>f \<in> set (threats th). 70 \<le> findingWeight f)
        \<and> (info \<noteq> None \<longrightarrow> 80 \<le> riskScore th)"
  by (auto simp: analyzeAccountChange_def accountFindings_def flag_def basicThreat_def
      findingWeight_simps)

theorem account_drain_is_critical_witness:
  "analyzeAccountChange 7 (Some \<lparr>lamports = 0\<rparr>)
     = Some (basicThreat CRITICAL ''Account Change'' 80 [''Account drained of SOL''] 7 None)
   \<and> analyzeAccountChange 7 None
     = Some (basicThreat CRITICAL ''Account Change'' 70 [''Account closed or emptied''] 7 None)"
proof -
  have h: "Some \<lparr>lamports = 0\<rparr> = None
      \<or> (\<exists>i. Some \<lparr>lamports = 0\<rparr> = Some i \<and> lamports i = 0)" by simp
  have h': "(None :: accountInfo option) = None
      \<or> (\<exists>i. (None :: accountInfo option) = Some i \<and> lamports i = 0)" by simp
  from account_drain_is_critical [OF h, of 7] account_drain_is_critical [OF h', of 7]
  show ?thesis
    by (auto simp: analyzeAccountChange_def accountFindings_def flag_def basicThreat_def)
qed

section \<open>The periodic sweep visits every wallet\<close>















text \<open>The registry's keys stay distinct, as those of a \<open>Map\<close> are.\<close>

lemma distinct_lifecycle:
  "distinct (Map_keys (monitoredWallets mon)) \<Longrightarrow>
     distinct (Map_keys (monitoredWallets (lifecycle c mon)))"
  by (cases c)
     (auto simp: startMonitoring_def stopMonitoring_def startPeriodicChecks_def Let_def
        distinct_update distinct_delete update_conv'
        split: outcome.splits option.splits)

lemma distinct_lifecycles:
  "distinct (Map_keys (monitoredWallets mon)) \<Longrightarrow>
     distinct (Map_keys (monitoredWallets (lifecycles cs mon)))"
  by (induction cs arbitrary: mon) (simp_all add: distinct_lifecycle)





section \<open>The registry and the callbacks hold the same wallets\<close>

lemma keys_Map_set: "fst ` set (Map_set m k v) = insert k (fst ` set m)"
  using dom_update [of k v m] by simp

lemma keys_Map_delete: "fst ` set (Map_delete m k) = fst ` set m - {k}"
  using delete_keys [of k m] by (metis list.set_map set_removeAll)

lemma registryConsistent_new: "registryConsistent new_monitor"
  by (simp add: registryConsistent_def new_monitor_def)

lemma registryConsistent_start:
  "registryConsistent mon \<Longrightarrow>
     registryConsistent (snd (startMonitoring validKey accountSub logsSub now w uid cb mon))"
  by (simp add: registryConsistent_def startMonitoring_def startPeriodicChecks_def Let_def
      keys_Map_set update_conv' split: outcome.splits option.splits)

lemma registryConsistent_stop:
  "registryConsistent mon \<Longrightarrow> registryConsistent (stopMonitoring rmAccount rmLogs w mon)"
  by (simp add: registryConsistent_def stopMonitoring_def keys_Map_delete
      split: option.splits)

lemma registryConsistent_lifecycle:
  "registryConsistent mon \<Longrightarrow> registryConsistent (lifecycle c mon)"
  by (cases c) (simp_all add: registryConsistent_start registryConsistent_stop)

lemma registryConsistent_lifecycles:
  "registryConsistent mon \<Longrightarrow> registryConsistent (lifecycles cs mon)"
  by (induction cs arbitrary: mon) (simp_all add: registryConsistent_lifecycle)

text \<open>
  The two lifecycle calls by themselves keep the two maps in step: the maps are empty at
  construction, every \<open>startMonitoring\<close> and every \<open>stopMonitoring\<close> call run from a state
  where they hold the same addresses ends in such a state, whatever the provider does
  (invalid key, failed subscription, failed unsubscription), and so they agree after
  every history that consists of such calls only.
\<close>

lemma lifecycle_calls_keep_agreement:
  "registryConsistent new_monitor
   \<and> (registryConsistent mon \<longrightarrow>
        registryConsistent (snd (startMonitoring validKey accountSub logsSub now w uid cb mon))
        \<and> registryConsistent (stopMonitoring rmAccount rmLogs w' mon))
   \<and> registryConsistent (lifecycles calls new_monitor)"
  by (simp add: registryConsistent_new registryConsistent_start registryConsistent_stop
      registryConsistent_lifecycles)

text \<open>
  C10 fails on the code. A health check of wallet \<open>W\<close> reads the entry and suspends at
  \<open>getAccountInfo\<close>; \<open>stopMonitoring\<close> of \<open>W\<close> runs to its end meanwhile and removes \<open>W\<close>
  from both maps; the health check resumes and sets the entry it read. Now \<open>W\<close> has a
  registry entry and no threat callback, and the two maps hold different addresses after
  the next \<open>startMonitoring\<close> call and after the next \<open>stopMonitoring\<close> call as well.
\<close>

theorem health_check_resumed_after_unwatch_breaks_agreement:
  "beginHealthCheck ''W'' (watching None [''W''] ''U'')
     = Some (\<lparr>userId = ''U'', lastCheck = 0, transactionCount = 0, subscriptionId = Some 1,
              logsSubscriptionId = Some 2, lastActivity = None, hadAccount = False\<rparr>,
             (watching None [''W''] ''U'')\<lparr>getAccountInfo_calls := [''W'']\<rparr>)
   \<and> registryConsistent (transactionMonitor (watching None [''W''] ''U''))
   \<and> registryConsistent (transactionMonitor (unwatch (Ok ()) (Ok ()) ''W''
         ((watching None [''W''] ''U'')\<lparr>getAccountInfo_calls := [''W'']\<rparr>)))
   \<and> Map_keys (monitoredWallets (transactionMonitor
         (resumeHealthCheck 1000 (Ok (Some \<lparr>lamports = 5\<rparr>)) Timeout ''W''
            \<lparr>userId = ''U'', lastCheck = 0, transactionCount = 0, subscriptionId = Some 1,
             logsSubscriptionId = Some 2, lastActivity = None, hadAccount = False\<rparr>
            (unwatch (Ok ()) (Ok ()) ''W''
               ((watching None [''W''] ''U'')\<lparr>getAccountInfo_calls := [''W'']\<rparr>)))))
     = [''W'']
   \<and> Map_keys (threatCallbacks (transactionMonitor
         (resumeHealthCheck 1000 (Ok (Some \<lparr>lamports = 5\<rparr>)) Timeout ''W''
            \<lparr>userId = ''U'', lastCheck = 0, transactionCount = 0, subscriptionId = Some 1,
             logsSubscriptionId = Some 2, lastActivity = None, hadAccount = False\<rparr>
            (unwatch (Ok ()) (Ok ()) ''W''
               ((watching None [''W''] ''U'')\<lparr>getAccountInfo_calls := [''W'']\<rparr>)))))
     = []
   \<and> \<not> registryConsistent (snd (startMonitoring True (Ok 3) (Ok 4) 2000 ''X'' ''U'' ''U''
         (transactionMonitor
            (resumeHealthCheck 1000 (Ok (Some \<lparr>lamports = 5\<rparr>)) Timeout ''W''
               \<lparr>userId = ''U'', lastCheck = 0, transactionCount = 0, subscriptionId = Some 1,
                logsSubscriptionId = Some 2, lastActivity = None, hadAccount = False\<rparr>
               (unwatch (Ok ()) (Ok ()) ''W''
                  ((watching None [''W''] ''U'')\<lparr>getAccountInfo_calls := [''W'']\<rparr>))))))
   \<and> \<not> registryConsistent (stopMonitoring (Ok ()) (Ok ()) ''X''
         (transactionMonitor
            (resumeHealthCheck 1000 (Ok (Some \<lparr>lamports = 5\<rparr>)) Timeout ''W''
               \<lparr>userId = ''U'', lastCheck = 0, transactionCount = 0, subscriptionId = Some 1,
                logsSubscriptionId = Some 2, lastActivity = None, hadAccount = False\<rparr>
               (unwatch (Ok ()) (Ok ()) ''W''
                  ((watching None [''W''] ''U'')\<lparr>getAccountInfo_calls := [''W'']\<rparr>)))))"
  by code_simp

section \<open>Merging the AI enrichment\<close>

lemma foldl_Set_add_distinct: "distinct acc \<Longrightarrow> distinct (foldl Set_add acc xs)"
  by (induction xs arbitrary: acc) (simp_all add: Set_add_def)

lemma foldl_Set_add_set: "set (foldl Set_add acc xs) = set acc \<union> set xs"
  by (induction xs arbitrary: acc) (auto simp: Set_add_def)

lemma distinct_Set_from: "distinct (Set_from xs)"
  by (simp add: Set_from_def foldl_Set_add_distinct)

lemma set_Set_from: "set (Set_from xs) = set xs"
  by (simp add: Set_from_def foldl_Set_add_set)

lemma enhanceWithAI_fields:
  "enhanceWithAI a e0 = Ok e1 \<Longrightarrow>
     threat_type e1 = threat_type e0 \<and> signature e1 = signature e0
     \<and> riskScore e0 \<le> riskScore e1
     \<and> (\<not> confidenceAbove80 a \<longrightarrow> riskScore e1 = riskScore e0)
     \<and> threats e1 = (case ai_threats a of Labels ls \<Rightarrow> Set_from (threats e0 @ ls)
                       | _ \<Rightarrow> threats e0)"
  by (auto simp: enhanceWithAI_def Let_def split: threats_field.splits if_splits)

lemma withProfile_fields:
  "threat_type (withProfile now an w b) = threat_type b"
  "signature (withProfile now an w b) = signature b"
  "riskScore (withProfile now an w b) = riskScore b"
  "threats (withProfile now an w b) = threats b"
  "aiAnalysis (withProfile now an w b) = aiAnalysis b"
  "recommendation (withProfile now an w b) = recommendation b"
  "aiExplanation (withProfile now an w b) = aiExplanation b"
  by (simp_all add: withProfile_def split: option.splits)

lemma combineAnalysis_Some:
  assumes "combineAnalysis now an (Some b) ai w = Ok (Some e)"
  obtains e1 where
    "(case ai of None \<Rightarrow> Ok (withProfile now an w b)
               | Some a \<Rightarrow> enhanceWithAI a (withProfile now an w b)) = Ok e1"
    and "threats e = threats e1" and "threat_type e = threat_type e1"
    and "signature e = signature e1"
    and "aiAnalysis e = aiAnalysis e1" and "recommendation e = recommendation e1"
    and "aiExplanation e = aiExplanation e1"
    and "riskScore e = (if matchKnownThreats (threats e1) = [] then riskScore e1
                        else max (riskScore e1) 80)"
proof (cases "case ai of None \<Rightarrow> Ok (withProfile now an w b)
               | Some a \<Rightarrow> enhanceWithAI a (withProfile now an w b)")
  case Failed
  with assms show ?thesis by (simp add: combineAnalysis_def Let_def)
next
  case (Ok e1)
  with assms have "e = (if length (matchKnownThreats (threats e1)) > 0
                 then e1\<lparr>knownThreats := matchKnownThreats (threats e1),
                         riskScore := max (riskScore e1) 80\<rparr>
                 else e1)"
    by (simp add: combineAnalysis_def Let_def)
  then have "threats e = threats e1" "threat_type e = threat_type e1"
    "signature e = signature e1"
    "aiAnalysis e = aiAnalysis e1" "recommendation e = recommendation e1"
    "aiExplanation e = aiExplanation e1"
    "riskScore e = (if matchKnownThreats (threats e1) = [] then riskScore e1
                        else max (riskScore e1) 80)"
    by (simp_all split: if_splits)
  with Ok that show ?thesis by blast
qed

lemma updateWalletProfile_key: "openaiApiKey (updateWalletProfile now w ls an) = openaiApiKey an"
  by (simp add: updateWalletProfile_def Let_def)

lemma combineAnalysis_no_ai:
  "\<exists>e. combineAnalysis now an (Some b) None w = Ok (Some e)"
  by (simp add: combineAnalysis_def Let_def)

text \<open>The labels of the scorers match no pattern of the threat database.\<close>

lemma fromScorer_empty: "fromScorer ([], 0)"
  by (simp add: fromScorer_def)

lemma fromScorer_flag: "fromScorer a \<Longrightarrow> findingWeight label \<noteq> 0 \<Longrightarrow> fromScorer (flag label w a)"
  by (simp add: fromScorer_def flag_def)

lemma fromScorer_checkLog: "fromScorer a \<Longrightarrow> fromScorer (checkLog s a)"
  unfolding checkLog_def Let_def
  by (intro fromScorer_flag | simp only: findingWeight_simps if_split | rule conjI impI
      | simp)+

lemma fromScorer_forEachLog: "fromScorer a \<Longrightarrow> fromScorer (snd (forEachLog ls a))"
  by (induction ls a rule: forEachLog.induct) (simp_all add: fromScorer_checkLog)

lemma fromScorer_balanceLoop: "fromScorer a \<Longrightarrow> fromScorer (balanceLoop posts pre a)"
  by (induction posts pre a rule: balanceLoop.induct)
     (simp_all add: Let_def fromScorer_flag findingWeight_simps)

lemma fromScorer_structureCheck: "fromScorer a \<Longrightarrow> fromScorer (structureCheck t a)"
  by (simp add: structureCheck_def Let_def fromScorer_balanceLoop fromScorer_flag
      findingWeight_simps split: option.splits)

lemma fromScorer_frequencyCheck: "fromScorer a \<Longrightarrow> fromScorer (frequencyCheck mon now w a)"
  by (simp add: frequencyCheck_def fromScorer_flag findingWeight_simps split: option.splits)

lemma fromScorer_transactionFindings: "fromScorer (transactionFindings mon now w t lg)"
proof (cases "logs_logs lg")
  case NotAnArray
  then show ?thesis
    by (simp add: transactionFindings_def catchAnalysisError_def fromScorer_flag
        fromScorer_empty findingWeight_simps)
next
  case (Lines ls)
  have fe: "fromScorer (snd (forEachLog ls ([], 0)))"
    by (rule fromScorer_forEachLog [OF fromScorer_empty])
  obtain c a where ca: "forEachLog ls ([], 0) = (c, a)" by (cases "forEachLog ls ([], 0)")
  with fe have wa: "fromScorer a" by simp
  show ?thesis
  proof (cases c)
    case Returned
    with Lines ca wa show ?thesis
      by (simp add: transactionFindings_def fromScorer_frequencyCheck
          fromScorer_structureCheck)
  next
    case Thrown
    with Lines ca wa show ?thesis
      by (simp add: transactionFindings_def catchAnalysisError_def fromScorer_flag
          findingWeight_simps)
  qed
qed

lemma fromScorer_accountFindings: "fromScorer (accountFindings info)"
  by (simp add: accountFindings_def fromScorer_flag fromScorer_empty findingWeight_simps
      split: option.splits)

lemma weighted_label_cases:
  "findingWeight l \<noteq> 0 \<Longrightarrow>
     l \<in> set [''Account closed or emptied'', ''Account drained of SOL'',
       ''Token authority transfer detected'', ''Interaction with unknown program'',
       ''Large token transfer detected'', ''Interaction with flagged program'',
       ''Token approval detected - potential drainer'',
       ''Transaction failed - possible attack attempt'',
       ''High number of account interactions'', ''Significant SOL balance decrease'',
       ''High transaction frequency detected'', ''Analysis error occurred'']"
  unfolding findingWeight_def by (simp split: if_splits)

lemma no_pattern_in_scorer_labels:
  "list_all (\<lambda>l. list_all (\<lambda>(threatType, pats, level, description).
       list_all (\<lambda>pattern. \<not> str_includes (toLowerCase l) (toLowerCase pattern)) pats)
       threatDatabase)
     [''Account closed or emptied'', ''Account drained of SOL'',
       ''Token authority transfer detected'', ''Interaction with unknown program'',
       ''Large token transfer detected'', ''Interaction with flagged program'',
       ''Token approval detected - potential drainer'',
       ''Transaction failed - possible attack attempt'',
       ''High number of account interactions'', ''Significant SOL balance decrease'',
       ''High transaction frequency detected'', ''Analysis error occurred'']"
  by code_simp

lemma patternMatches_scorer:
  assumes "\<forall>l \<in> set labels. findingWeight l \<noteq> 0"
    and "(threatType, pats, level, description) \<in> set threatDatabase"
  shows "patternMatches labels pats = []"
proof -
  have "\<not> str_includes (toLowerCase l) (toLowerCase pattern)"
    if "l \<in> set labels" "pattern \<in> set pats" for l pattern
  proof -
    from that(1) assms(1) have "findingWeight l \<noteq> 0" by blast
    from weighted_label_cases [OF this] no_pattern_in_scorer_labels assms(2) that(2)
    show ?thesis
      unfolding list_all_iff by blast
  qed
  then show ?thesis
    by (auto simp: patternMatches_def filter_empty_conv list_ex_iff)
qed

lemma matchKnownThreats_scorer:
  assumes "\<forall>l \<in> set labels. findingWeight l \<noteq> 0"
  shows "matchKnownThreats labels = []"
proof -
  have "\<And>entry. entry \<in> set threatDatabase \<Longrightarrow>
      (case entry of (threatType, pats, level, description) \<Rightarrow>
        if length (patternMatches labels pats) \<ge> 2
        then [\<lparr>kt_type = threatType, kt_description = description, kt_riskLevel = level,
               kt_matchedPatterns = patternMatches labels pats\<rparr>]
        else []) = []"
    using patternMatches_scorer [OF assms] by (auto split: prod.splits)
  then show ?thesis
    unfolding matchKnownThreats_def by (simp add: concat_eq_Nil_conv)
qed

lemma scorer_threats_match_nothing:
  "analyzeTransaction mon now w transaction lg = Some th \<or> analyzeAccountChange now info = Some th
     \<Longrightarrow> matchKnownThreats (threats th) = []"
proof (erule disjE)
  assume a: "analyzeTransaction mon now w transaction lg = Some th"
  then obtain t where t: "transaction = Some t"
    by (cases transaction) (simp_all add: analyzeTransaction_def)
  from a t have "threats th = fst (transactionFindings mon now w t lg)"
    by (auto simp: analyzeTransaction_Some basicThreat_def split: if_splits)
  with fromScorer_transactionFindings [of mon now w t lg] show ?thesis
    by (simp add: fromScorer_def matchKnownThreats_scorer)
next
  assume "analyzeAccountChange now info = Some th"
  then have "threats th = fst (accountFindings info)"
    by (auto simp: analyzeAccountChange_eq basicThreat_def split: if_splits)
  with fromScorer_accountFindings [of info] show ?thesis
    by (simp add: fromScorer_def matchKnownThreats_scorer)
qed

text \<open>
  C6, as the code has it. A timeout, an error response, and an answer whose
  brace-delimited part \<open>JSON.parse\<close> rejects give no enrichment (null); an answer with
  no brace-delimited part gives the fixed fallback enrichment instead. With no
  enrichment the caller's alert keeps the base threat's type and labels and gets no AI
  field; its score is the base score, raised to at least 80 only if the base labels
  themselves match two patterns of a threat-database entry, which the labels of a threat
  from either scorer never do. (The wallet-profile summary is attached in every case.)
\<close>

theorem failed_enrichment_is_absent:
  "getAIAnalysis Timeout = None
   \<and> getAIAnalysis ErrorResponse = None
   \<and> (jsonMatch body \<noteq> None \<longrightarrow> getAIAnalysis (Body body Failed) = None)
   \<and> (jsonMatch body' = None \<longrightarrow>
        getAIAnalysis (Body body' parsed) = Some fallbackAnalysis)
   \<and> (getAIAnalysis response = None \<longrightarrow>
        (\<exists>e. snd (analyzeTransactionWithAI now response an w logLines (Some b)) = Some e
           \<and> threat_type e = threat_type b
           \<and> threats e = threats b
           \<and> aiAnalysis e = aiAnalysis b
           \<and> recommendation e = recommendation b
           \<and> aiExplanation e = aiExplanation b
           \<and> riskScore e = (if matchKnownThreats (threats b) = [] then riskScore b
                            else max (riskScore b) 80)))
   \<and> (analyzeTransaction mon now' w' transaction lg = Some b'
        \<or> analyzeAccountChange now' info = Some b' \<longrightarrow>
        matchKnownThreats (threats b') = [])"
proof (intro conjI impI)
  show "getAIAnalysis Timeout = None" by (simp add: getAIAnalysis_def)
  show "getAIAnalysis ErrorResponse = None" by (simp add: getAIAnalysis_def)
next
  assume "jsonMatch body \<noteq> None"
  then show "getAIAnalysis (Body body Failed) = None"
    by (auto simp: getAIAnalysis_def parseAIResponse_def)
next
  assume "jsonMatch body' = None"
  then show "getAIAnalysis (Body body' parsed) = Some fallbackAnalysis"
    by (simp add: getAIAnalysis_def parseAIResponse_def)
next
  assume none: "getAIAnalysis response = None"
  define an1 where "an1 = updateWalletProfile now w logLines an"
  obtain e where e: "combineAnalysis now an1 (Some b) None w = Ok (Some e)"
    using combineAnalysis_no_ai by blast
  from none have r: "snd (analyzeTransactionWithAI now response an w logLines (Some b)) = Some e"
    using e by (simp add: analyzeTransactionWithAI_def Let_def an1_def)
  from e obtain e1 where
    e1: "Ok (withProfile now an1 w b) = Ok e1"
    and f: "threats e = threats e1" "threat_type e = threat_type e1"
      "aiAnalysis e = aiAnalysis e1" "recommendation e = recommendation e1"
      "aiExplanation e = aiExplanation e1"
      "riskScore e = (if matchKnownThreats (threats e1) = [] then riskScore e1
                        else max (riskScore e1) 80)"
    by (rule combineAnalysis_Some) simp
  from e1 have "e1 = withProfile now an1 w b" by simp
  with f have "threat_type e = threat_type b \<and> threats e = threats b
      \<and> aiAnalysis e = aiAnalysis b \<and> recommendation e = recommendation b
      \<and> aiExplanation e = aiExplanation b
      \<and> riskScore e = (if matchKnownThreats (threats b) = [] then riskScore b
                            else max (riskScore b) 80)"
    by (simp add: withProfile_fields)
  with r show "\<exists>e. snd (analyzeTransactionWithAI now response an w logLines (Some b)) = Some e
           \<and> threat_type e = threat_type b
           \<and> threats e = threats b
           \<and> aiAnalysis e = aiAnalysis b
           \<and> recommendation e = recommendation b
           \<and> aiExplanation e = aiExplanation b
           \<and> riskScore e = (if matchKnownThreats (threats b) = [] then riskScore b
                            else max (riskScore b) 80)"
    by blast
next
  assume "analyzeTransaction mon now' w' transaction lg = Some b'
        \<or> analyzeAccountChange now' info = Some b'"
  then show "matchKnownThreats (threats b') = []"
    by (rule scorer_threats_match_nothing)
qed

theorem failed_enrichment_is_absent_witness:
  "getAIAnalysis (Body ''Sure: {threatLevel: HIGH}'' Failed) = None
   \<and> getAIAnalysis (Body ''Sorry, I cannot analyze this.'' Failed) = Some fallbackAnalysis
   \<and> map_option threats
       (snd (analyzeTransactionWithAI 5 (Body ''Sure: {threatLevel: HIGH}'' Failed)
          \<lparr>openaiApiKey = Some ''k'', walletProfiles = []\<rparr> ''W''
          [''Token approval detected - potential drainer'']
          (Some (basicThreat WARNING ''Transaction Analysis'' 50
             [''Token approval detected - potential drainer''] 0 (Some ''sig'')))))
     = Some (threats (basicThreat WARNING ''Transaction Analysis'' 50
             [''Token approval detected - potential drainer''] 0 (Some ''sig'')))
   \<and> map_option riskScore
       (snd (analyzeTransactionWithAI 5 (Body ''Sure: {threatLevel: HIGH}'' Failed)
          \<lparr>openaiApiKey = Some ''k'', walletProfiles = []\<rparr> ''W''
          [''Token approval detected - potential drainer'']
          (Some (basicThreat WARNING ''Transaction Analysis'' 50
             [''Token approval detected - potential drainer''] 0 (Some ''sig'')))))
     = Some (riskScore (basicThreat WARNING ''Transaction Analysis'' 50
             [''Token approval detected - potential drainer''] 0 (Some ''sig'')))"
proof -
  have h1: "jsonMatch ''Sure: {threatLevel: HIGH}'' \<noteq> None" by code_simp
  have h2: "jsonMatch ''Sorry, I cannot analyze this.'' = None" by code_simp
  have h3: "analyzeTransaction new_monitor 0 ''W'' (Some \<lparr>tx_meta = None, accountKeys = []\<rparr>)
     \<lparr>logs_signature = ''sig'', logs_logs = Lines [LogStr ''Instruction: Approve'']\<rparr>
   = Some (basicThreat WARNING ''Transaction Analysis'' 50
        [''Token approval detected - potential drainer''] 0 (Some ''sig''))"
    by code_simp
  note T = failed_enrichment_is_absent [where body = "''Sure: {threatLevel: HIGH}''"
      and body' = "''Sorry, I cannot analyze this.''" and parsed = Failed
      and response = "Body ''Sure: {threatLevel: HIGH}'' Failed" and now = 5
      and an = "\<lparr>openaiApiKey = Some ''k'', walletProfiles = []\<rparr>" and w = "''W''"
      and logLines = "[''Token approval detected - potential drainer'']"
      and b = "basicThreat WARNING ''Transaction Analysis'' 50
             [''Token approval detected - potential drainer''] 0 (Some ''sig'')"
      and b' = "basicThreat WARNING ''Transaction Analysis'' 50
             [''Token approval detected - potential drainer''] 0 (Some ''sig'')"
      and mon = new_monitor and now' = 0 and w' = "''W''"
      and transaction = "Some \<lparr>tx_meta = None, accountKeys = []\<rparr>"
      and lg = "\<lparr>logs_signature = ''sig'',
                 logs_logs = Lines [LogStr ''Instruction: Approve'']\<rparr>"]
  from T h1 have a: "getAIAnalysis (Body ''Sure: {threatLevel: HIGH}'' Failed) = None"
    by blast
  from T h2 have b: "getAIAnalysis (Body ''Sorry, I cannot analyze this.'' Failed)
      = Some fallbackAnalysis"
    by blast
  from T h3 have m: "matchKnownThreats (threats (basicThreat WARNING ''Transaction Analysis'' 50
             [''Token approval detected - potential drainer''] 0 (Some ''sig''))) = []"
    by blast
  from T a have "\<exists>e. snd (analyzeTransactionWithAI 5 (Body ''Sure: {threatLevel: HIGH}'' Failed)
          \<lparr>openaiApiKey = Some ''k'', walletProfiles = []\<rparr> ''W''
          [''Token approval detected - potential drainer'']
          (Some (basicThreat WARNING ''Transaction Analysis'' 50
             [''Token approval detected - potential drainer''] 0 (Some ''sig'')))) = Some e
      \<and> threats e = threats (basicThreat WARNING ''Transaction Analysis'' 50
             [''Token approval detected - potential drainer''] 0 (Some ''sig''))
      \<and> riskScore e = (if matchKnownThreats (threats (basicThreat WARNING
             ''Transaction Analysis'' 50
             [''Token approval detected - potential drainer''] 0 (Some ''sig''))) = []
           then riskScore (basicThreat WARNING ''Transaction Analysis'' 50
             [''Token approval detected - potential drainer''] 0 (Some ''sig''))
           else max (riskScore (basicThreat WARNING ''Transaction Analysis'' 50
             [''Token approval detected - potential drainer''] 0 (Some ''sig''))) 80)"
    by blast
  then obtain e where
    e: "snd (analyzeTransactionWithAI 5 (Body ''Sure: {threatLevel: HIGH}'' Failed)
          \<lparr>openaiApiKey = Some ''k'', walletProfiles = []\<rparr> ''W''
          [''Token approval detected - potential drainer'']
          (Some (basicThreat WARNING ''Transaction Analysis'' 50
             [''Token approval detected - potential drainer''] 0 (Some ''sig'')))) = Some e"
    and t: "threats e = threats (basicThreat WARNING ''Transaction Analysis'' 50
             [''Token approval detected - potential drainer''] 0 (Some ''sig''))"
    and r: "riskScore e = (if matchKnownThreats (threats (basicThreat WARNING
             ''Transaction Analysis'' 50
             [''Token approval detected - potential drainer''] 0 (Some ''sig''))) = []
           then riskScore (basicThreat WARNING ''Transaction Analysis'' 50
             [''Token approval detected - potential drainer''] 0 (Some ''sig''))
           else max (riskScore (basicThreat WARNING ''Transaction Analysis'' 50
             [''Token approval detected - potential drainer''] 0 (Some ''sig''))) 80)"
    by blast
  from r m have r': "riskScore e = riskScore (basicThreat WARNING ''Transaction Analysis'' 50
             [''Token approval detected - potential drainer''] 0 (Some ''sig''))"
    by (simp only: if_True simp_thms)
  from e t have c: "map_option threats
       (snd (analyzeTransactionWithAI 5 (Body ''Sure: {threatLevel: HIGH}'' Failed)
          \<lparr>openaiApiKey = Some ''k'', walletProfiles = []\<rparr> ''W''
          [''Token approval detected - potential drainer'']
          (Some (basicThreat WARNING ''Transaction Analysis'' 50
             [''Token approval detected - potential drainer''] 0 (Some ''sig'')))))
     = Some (threats (basicThreat WARNING ''Transaction Analysis'' 50
             [''Token approval detected - potential drainer''] 0 (Some ''sig'')))"
    by (simp only: option.map)
  from e r' have d: "map_option riskScore
       (snd (analyzeTransactionWithAI 5 (Body ''Sure: {threatLevel: HIGH}'' Failed)
          \<lparr>openaiApiKey = Some ''k'', walletProfiles = []\<rparr> ''W''
          [''Token approval detected - potential drainer'']
          (Some (basicThreat WARNING ''Transaction Analysis'' 50
             [''Token approval detected - potential drainer''] 0 (Some ''sig'')))))
     = Some (riskScore (basicThreat WARNING ''Transaction Analysis'' 50
             [''Token approval detected - potential drainer''] 0 (Some ''sig'')))"
    by (simp only: option.map)
  from a b c d show ?thesis by (intro conjI)
qed

text \<open>
  C6 as stated fails: an answer without any JSON object is not treated as absent. The
  enrichment is the fallback object, and the alert gains the label
  \<open>AI analysis incomplete\<close>.
\<close>

theorem unparseable_answer_is_not_absent:
  "getAIAnalysis (Body ''Sorry, I cannot analyze this.'' Failed) = Some fallbackAnalysis
   \<and> map_option threats
       (snd (analyzeTransactionWithAI 5 (Body ''Sorry, I cannot analyze this.'' Failed)
          \<lparr>openaiApiKey = Some ''k'', walletProfiles = []\<rparr> ''W''
          [''Token approval detected - potential drainer'']
          (Some (basicThreat WARNING ''Transaction Analysis'' 50
             [''Token approval detected - potential drainer''] 0 (Some ''sig'')))))
     = Some [''Token approval detected - potential drainer'', ''AI analysis incomplete'']"
  by code_simp

text \<open>
  C7, as the code has it. The merge never lowers the score and never changes the
  threat's type. With an AI confidence of at most 80 (or none) the AI's threat level has
  no effect: the score is the base score, raised to at least 80 exactly when the merged
  labels match two patterns of a threat-database entry. AI labels are merged with set
  semantics: the result has no duplicate and holds exactly the labels of both lists;
  without AI labels the list is unchanged.
\<close>

theorem merge_raises_score_and_unions_labels:
  assumes "combineAnalysis now an (Some b) ai w = Ok (Some e)"
  shows "riskScore b \<le> riskScore e
     \<and> threat_type e = threat_type b
     \<and> (\<forall>a. ai = Some a \<and> (\<forall>c. confidence a = Some c \<longrightarrow> c \<le> 80) \<longrightarrow>
          riskScore e = (if matchKnownThreats (threats e) = [] then riskScore b
                         else max (riskScore b) 80))
     \<and> (\<forall>a ls. ai = Some a \<and> ai_threats a = Labels ls \<longrightarrow>
          threats e = Set_from (threats b @ ls) \<and> distinct (threats e)
          \<and> set (threats e) = set (threats b) \<union> set ls)
     \<and> (ai = None \<or> (\<exists>a. ai = Some a \<and> ai_threats a = Missing) \<longrightarrow> threats e = threats b)"
proof -
  from assms obtain e1 where
    e1: "(case ai of None \<Rightarrow> Ok (withProfile now an w b)
                     | Some a \<Rightarrow> enhanceWithAI a (withProfile now an w b)) = Ok e1"
    and te: "threats e = threats e1" and ty: "threat_type e = threat_type e1"
    and sc: "riskScore e = (if matchKnownThreats (threats e1) = [] then riskScore e1
                            else max (riskScore e1) 80)"
    by (rule combineAnalysis_Some)
  show ?thesis
  proof (cases ai)
    case None
    with e1 have "e1 = withProfile now an w b" by simp
    with te ty sc None show ?thesis by (simp add: withProfile_fields)
  next
    case (Some a)
    with e1 have "enhanceWithAI a (withProfile now an w b) = Ok e1" by simp
    from enhanceWithAI_fields [OF this]
    have f: "threat_type e1 = threat_type b" "riskScore b \<le> riskScore e1"
      "\<not> confidenceAbove80 a \<longrightarrow> riskScore e1 = riskScore b"
      "threats e1 = (case ai_threats a of Labels ls \<Rightarrow> Set_from (threats b @ ls)
                       | _ \<Rightarrow> threats b)"
      by (simp_all add: withProfile_fields split: threats_field.splits)
    have low: "(\<forall>c. confidence a = Some c \<longrightarrow> c \<le> 80) \<Longrightarrow> \<not> confidenceAbove80 a"
      by (auto simp: confidenceAbove80_def split: option.splits)
    have 1: "riskScore b \<le> riskScore e" using f(2) sc by (simp split: if_splits)
    have 2: "threat_type e = threat_type b" using f(1) ty by simp
    have 3: "(\<forall>c. confidence a = Some c \<longrightarrow> c \<le> 80) \<longrightarrow>
          riskScore e = (if matchKnownThreats (threats e) = [] then riskScore b
                         else max (riskScore b) 80)"
      using low f(3) sc te by simp
    have 4: "\<forall>ls. ai_threats a = Labels ls \<longrightarrow>
          threats e = Set_from (threats b @ ls) \<and> distinct (threats e)
          \<and> set (threats e) = set (threats b) \<union> set ls"
      using f(4) te by (simp add: distinct_Set_from set_Set_from)
    have 5: "ai_threats a = Missing \<longrightarrow> threats e = threats b"
      using f(4) te by simp
    from 1 2 3 4 5 Some show ?thesis by blast
  qed
qed

theorem merge_raises_score_and_unions_labels_witness:
  "combineAnalysis 0 \<lparr>openaiApiKey = Some ''k'', walletProfiles = []\<rparr>
     (Some (basicThreat WARNING ''Transaction Analysis'' 50
        [''Token approval detected - potential drainer''] 0 (Some ''sig'')))
     (Some \<lparr>threatLevel = Some ''CRITICAL'', confidence = Some 95,
        ai_threats = Labels [''Token approval detected - potential drainer'', ''Drainer''],
        ai_recommendation = Some ''Revoke'', ai_explanation = None\<rparr>) ''W''
   = Ok (Some ((basicThreat WARNING ''Transaction Analysis'' 50
        [''Token approval detected - potential drainer''] 0 (Some ''sig''))
        \<lparr>riskScore := 90,
         threats := [''Token approval detected - potential drainer'', ''Drainer''],
         aiAnalysis := Some \<lparr>threatLevel = Some ''CRITICAL'', confidence = Some 95,
            ai_threats = Labels [''Token approval detected - potential drainer'', ''Drainer''],
            ai_recommendation = Some ''Revoke'', ai_explanation = None\<rparr>,
         recommendation := Some ''Revoke''\<rparr>))
   \<and> riskScore (basicThreat WARNING ''Transaction Analysis'' 50
        [''Token approval detected - potential drainer''] 0 (Some ''sig''))
     \<le> riskScore ((basicThreat WARNING ''Transaction Analysis'' 50
        [''Token approval detected - potential drainer''] 0 (Some ''sig''))
        \<lparr>riskScore := 90,
         threats := [''Token approval detected - potential drainer'', ''Drainer''],
         aiAnalysis := Some \<lparr>threatLevel = Some ''CRITICAL'', confidence = Some 95,
            ai_threats = Labels [''Token approval detected - potential drainer'', ''Drainer''],
            ai_recommendation = Some ''Revoke'', ai_explanation = None\<rparr>,
         recommendation := Some ''Revoke''\<rparr>)
   \<and> distinct (threats ((basicThreat WARNING ''Transaction Analysis'' 50
        [''Token approval detected - potential drainer''] 0 (Some ''sig''))
        \<lparr>riskScore := 90,
         threats := [''Token approval detected - potential drainer'', ''Drainer''],
         aiAnalysis := Some \<lparr>threatLevel = Some ''CRITICAL'', confidence = Some 95,
            ai_threats = Labels [''Token approval detected - potential drainer'', ''Drainer''],
            ai_recommendation = Some ''Revoke'', ai_explanation = None\<rparr>,
         recommendation := Some ''Revoke''\<rparr>))
   \<and> combineAnalysis 0 \<lparr>openaiApiKey = Some ''k'', walletProfiles = []\<rparr>
     (Some (basicThreat WARNING ''Transaction Analysis'' 50
        [''Token approval detected - potential drainer''] 0 (Some ''sig'')))
     (Some \<lparr>threatLevel = Some ''HIGH'', confidence = Some 80, ai_threats = Missing,
        ai_recommendation = None, ai_explanation = Some ''Looks risky''\<rparr>) ''W''
   = Ok (Some ((basicThreat WARNING ''Transaction Analysis'' 50
        [''Token approval detected - potential drainer''] 0 (Some ''sig''))
        \<lparr>aiAnalysis := Some \<lparr>threatLevel = Some ''HIGH'', confidence = Some 80,
            ai_threats = Missing, ai_recommendation = None,
            ai_explanation = Some ''Looks risky''\<rparr>,
         aiExplanation := Some ''Looks risky''\<rparr>))
   \<and> riskScore ((basicThreat WARNING ''Transaction Analysis'' 50
        [''Token approval detected - potential drainer''] 0 (Some ''sig''))
        \<lparr>aiAnalysis := Some \<lparr>threatLevel = Some ''HIGH'', confidence = Some 80,
            ai_threats = Missing, ai_recommendation = None,
            ai_explanation = Some ''Looks risky''\<rparr>,
         aiExplanation := Some ''Looks risky''\<rparr>)
     = riskScore (basicThreat WARNING ''Transaction Analysis'' 50
        [''Token approval detected - potential drainer''] 0 (Some ''sig''))
   \<and> threats ((basicThreat WARNING ''Transaction Analysis'' 50
        [''Token approval detected - potential drainer''] 0 (Some ''sig''))
        \<lparr>aiAnalysis := Some \<lparr>threatLevel = Some ''HIGH'', confidence = Some 80,
            ai_threats = Missing, ai_recommendation = None,
            ai_explanation = Some ''Looks risky''\<rparr>,
         aiExplanation := Some ''Looks risky''\<rparr>)
     = threats (basicThreat WARNING ''Transaction Analysis'' 50
        [''Token approval detected - potential drainer''] 0 (Some ''sig''))"
proof -
  define b where "b = basicThreat WARNING ''Transaction Analysis'' 50
        [''Token approval detected - potential drainer''] 0 (Some ''sig'')"
  define a1 where "a1 = \<lparr>threatLevel = Some ''CRITICAL'', confidence = Some 95,
        ai_threats = Labels [''Token approval detected - potential drainer'', ''Drainer''],
        ai_recommendation = Some ''Revoke'', ai_explanation = None\<rparr>"
  define a2 where "a2 = \<lparr>threatLevel = Some ''HIGH'', confidence = Some 80,
        ai_threats = Missing, ai_recommendation = None,
        ai_explanation = Some ''Looks risky''\<rparr>"
  define e1 where "e1 = b\<lparr>riskScore := 90,
         threats := [''Token approval detected - potential drainer'', ''Drainer''],
         aiAnalysis := Some a1, recommendation := Some ''Revoke''\<rparr>"
  define e2 where "e2 = b\<lparr>aiAnalysis := Some a2, aiExplanation := Some ''Looks risky''\<rparr>"
  have h1: "combineAnalysis 0 \<lparr>openaiApiKey = Some ''k'', walletProfiles = []\<rparr>
      (Some b) (Some a1) ''W'' = Ok (Some e1)"
    unfolding b_def a1_def e1_def by code_simp
  have h2: "combineAnalysis 0 \<lparr>openaiApiKey = Some ''k'', walletProfiles = []\<rparr>
      (Some b) (Some a2) ''W'' = Ok (Some e2)"
    unfolding b_def a2_def e2_def by code_simp
  have l1: "ai_threats a1 = Labels [''Token approval detected - potential drainer'', ''Drainer'']"
    by (simp add: a1_def)
  have c2: "\<forall>c. confidence a2 = Some c \<longrightarrow> c \<le> 80" by (simp add: a2_def)
  have l2: "ai_threats a2 = Missing" by (simp add: a2_def)
  have m2: "matchKnownThreats (threats e2) = []"
    unfolding e2_def b_def a2_def by code_simp
  note T1 = merge_raises_score_and_unions_labels [OF h1]
  note T2 = merge_raises_score_and_unions_labels [OF h2]
  from T1 have p1: "riskScore b \<le> riskScore e1" by (rule conjunct1)
  from T1 l1 have p2: "distinct (threats e1)" by blast
  from T2 c2 have "riskScore e2 = (if matchKnownThreats (threats e2) = [] then riskScore b
                         else max (riskScore b) 80)"
    by blast
  with m2 have p3: "riskScore e2 = riskScore b" by (simp only: if_True simp_thms)
  from T2 l2 have p4: "threats e2 = threats b" by blast
  from h1 p1 p2 h2 p3 p4 show ?thesis
    unfolding b_def a1_def a2_def e1_def e2_def by (intro conjI)
qed

text \<open>
  C7 as stated fails: an enrichment with confidence 50 whose labels match two patterns
  of the \<open>token_drainer\<close> entry raises the score from 50 to 80, where the same threat
  merged without enrichment keeps 50.
\<close>

theorem low_confidence_enrichment_raises_score:
  "combineAnalysis 0 \<lparr>openaiApiKey = Some ''k'', walletProfiles = []\<rparr>
     (Some (basicThreat WARNING ''Transaction Analysis'' 50
        [''Token approval detected - potential drainer''] 0 (Some ''sig'')))
     (Some \<lparr>threatLevel = Some ''LOW'', confidence = Some 50,
        ai_threats = Labels [''Approve'', ''transfer_all''], ai_recommendation = None,
        ai_explanation = None\<rparr>) ''W''
   = Ok (Some ((basicThreat WARNING ''Transaction Analysis'' 50
        [''Token approval detected - potential drainer''] 0 (Some ''sig''))
        \<lparr>riskScore := 80,
         threats := [''Token approval detected - potential drainer'', ''Approve'',
                     ''transfer_all''],
         aiAnalysis := Some \<lparr>threatLevel = Some ''LOW'', confidence = Some 50,
            ai_threats = Labels [''Approve'', ''transfer_all''], ai_recommendation = None,
            ai_explanation = None\<rparr>,
         knownThreats := [\<lparr>kt_type = ''token_drainer'',
            kt_description = ''Token drainer contract detected'',
            kt_riskLevel = ''CRITICAL'',
            kt_matchedPatterns = [''approve'', ''transfer_all'']\<rparr>]\<rparr>))
   \<and> combineAnalysis 0 \<lparr>openaiApiKey = Some ''k'', walletProfiles = []\<rparr>
     (Some (basicThreat WARNING ''Transaction Analysis'' 50
        [''Token approval detected - potential drainer''] 0 (Some ''sig''))) None ''W''
   = Ok (Some (basicThreat WARNING ''Transaction Analysis'' 50
        [''Token approval detected - potential drainer''] 0 (Some ''sig'')))"
  by code_simp

section \<open>From a log event to an alert\<close>

lemma analyzeTransactionWithAI_analyzer:
  "fst (analyzeTransactionWithAI now response an w ls basic) = updateWalletProfile now w ls an"
  by (simp add: analyzeTransactionWithAI_def Let_def split: outcome.splits)

lemma analyzeTransactionWithAI_signature:
  "\<exists>e. snd (analyzeTransactionWithAI now response an w ls (Some b)) = Some e
       \<and> signature e = signature b"
proof -
  define an1 where "an1 = updateWalletProfile now w ls an"
  define ai where "ai = (if keyConfigured (openaiApiKey an) then getAIAnalysis response else None)"
  have r: "snd (analyzeTransactionWithAI now response an w ls (Some b))
      = (case combineAnalysis now an1 (Some b) ai w of Ok enhanced \<Rightarrow> enhanced
         | Failed \<Rightarrow> Some b)"
    by (simp add: analyzeTransactionWithAI_def Let_def an1_def ai_def split: outcome.splits)
  show ?thesis
  proof (cases "combineAnalysis now an1 (Some b) ai w")
    case Failed
    with r show ?thesis by simp
  next
    case (Ok enhanced)
    then obtain e where en: "enhanced = Some e"
      by (cases enhanced) (auto simp: combineAnalysis_def Let_def split: outcome.splits)
    with Ok have c: "combineAnalysis now an1 (Some b) ai w = Ok (Some e)" by simp
    from c obtain e1 where
      e1: "(case ai of None \<Rightarrow> Ok (withProfile now an1 w b)
               | Some a \<Rightarrow> enhanceWithAI a (withProfile now an1 w b)) = Ok e1"
      and s: "signature e = signature e1"
      by (rule combineAnalysis_Some)
    have "signature e1 = signature b"
    proof (cases ai)
      case None
      with e1 show ?thesis by (auto simp: withProfile_fields)
    next
      case (Some a)
      with e1 have "enhanceWithAI a (withProfile now an1 w b) = Ok e1" by simp
      from enhanceWithAI_fields [OF this] show ?thesis by (simp add: withProfile_fields)
    qed
    with s r Ok en show ?thesis by simp
  qed
qed

lemma alertKeys_append: "alertKeys (xs @ ys) = alertKeys xs @ alertKeys ys"
  by (simp add: alertKeys_def)

lemma handleThreatDetected_alertKeys:
  "alertKeys (sent (handleThreatDetected now response w basic uid b))
     = alertKeys (sent b) @ [(w, signature basic)]"
proof -
  obtain e where e: "snd (analyzeTransactionWithAI now response (threatAnalyzer b) w
       (threats basic) (Some basic)) = Some e" and s: "signature e = signature basic"
    using analyzeTransactionWithAI_signature by blast
  obtain an1 where p: "analyzeTransactionWithAI now response (threatAnalyzer b) w
       (threats basic) (Some basic) = (an1, Some e)"
    using e by (cases "analyzeTransactionWithAI now response (threatAnalyzer b) w
       (threats basic) (Some basic)") simp
  show ?thesis
    using p s by (simp add: handleThreatDetected_def Let_def alertKeys_append alertKeys_def)
qed

lemma handleThreatDetected_analyzer:
  "threatAnalyzer (handleThreatDetected now response w basic uid b)
     = updateWalletProfile now w (threats basic) (threatAnalyzer b)"
proof -
  obtain an1 enhanced where p: "analyzeTransactionWithAI now response (threatAnalyzer b) w
       (threats basic) (Some basic) = (an1, enhanced)"
    by (cases "analyzeTransactionWithAI now response (threatAnalyzer b) w
       (threats basic) (Some basic)")
  with analyzeTransactionWithAI_analyzer
    [of now response "threatAnalyzer b" w "threats basic" "Some basic"]
  have "an1 = updateWalletProfile now w (threats basic) (threatAnalyzer b)" by simp
  with p show ?thesis
    by (simp add: handleThreatDetected_def Let_def split: option.splits)
qed

lemma recordActivity_callbacks:
  "threatCallbacks (recordActivity now w wi mon) = threatCallbacks mon"
  by (simp add: recordActivity_def)

text \<open>
  C1, as the code has it. Every log event of a watched wallet whose transaction was
  fetched and whose evaluation exceeds the threshold hands one alert of its own to the
  sink, with the key (wallet address, triggering signature), whatever was sent before:
  nothing is deduplicated or merged.
\<close>

theorem every_qualifying_event_sends_its_own_alert:
  assumes "Map_get (monitoredWallets (transactionMonitor b)) w = Some walletInfo"
    and "Map_get (threatCallbacks (transactionMonitor b)) w = Some uid"
    and "analyzeTransaction (recordActivity now w walletInfo (transactionMonitor b)) now w
           (Some t) lg = Some th"
  shows "alertKeys (sent (handleTransactionLogs now (Ok (Some t)) response w lg b))
           = alertKeys (sent b) @ [(w, Some (logs_signature lg))]"
proof -
  from assms(3) have sig: "signature th = Some (logs_signature lg)"
    by (auto simp: analyzeTransaction_Some basicThreat_def split: if_splits)
  show ?thesis
    using assms sig
    by (simp add: handleTransactionLogs_def Let_def sendThreatAlert_def
        recordActivity_callbacks handleThreatDetected_alertKeys)
qed

theorem every_qualifying_event_sends_its_own_alert_witness:
  "alertKeys (sent (handleTransactionLogs 1000
       (Ok (Some \<lparr>tx_meta = None, accountKeys = []\<rparr>)) Timeout ''W''
       \<lparr>logs_signature = ''sig'', logs_logs = Lines [LogStr ''Instruction: Approve'']\<rparr>
       (watching None [''W''] ''U'')))
     = [(''W'', Some ''sig'')]
   \<and> alertKeys (sent (handleTransactionLogs 2000
       (Ok (Some \<lparr>tx_meta = None, accountKeys = []\<rparr>)) Timeout ''W''
       \<lparr>logs_signature = ''sig'', logs_logs = Lines [LogStr ''Instruction: Approve'']\<rparr>
       (handleTransactionLogs 1000
          (Ok (Some \<lparr>tx_meta = None, accountKeys = []\<rparr>)) Timeout ''W''
          \<lparr>logs_signature = ''sig'', logs_logs = Lines [LogStr ''Instruction: Approve'']\<rparr>
          (watching None [''W''] ''U''))))
     = alertKeys (sent (handleTransactionLogs 1000
          (Ok (Some \<lparr>tx_meta = None, accountKeys = []\<rparr>)) Timeout ''W''
          \<lparr>logs_signature = ''sig'', logs_logs = Lines [LogStr ''Instruction: Approve'']\<rparr>
          (watching None [''W''] ''U'')))
       @ [(''W'', Some ''sig'')]"
proof -
  define S1 where "S1 = handleTransactionLogs 1000
          (Ok (Some \<lparr>tx_meta = None, accountKeys = []\<rparr>)) Timeout ''W''
          \<lparr>logs_signature = ''sig'', logs_logs = Lines [LogStr ''Instruction: Approve'']\<rparr>
          (watching None [''W''] ''U'')"
  have k: "alertKeys (sent S1) = [(''W'', Some ''sig'')]"
    unfolding S1_def by code_simp
  have h1: "Map_get (monitoredWallets (transactionMonitor S1)) ''W''
      = Some \<lparr>userId = ''U'', lastCheck = 0, transactionCount = 1, subscriptionId = Some 1,
              logsSubscriptionId = Some 2, lastActivity = Some 1000, hadAccount = False\<rparr>"
    unfolding S1_def by code_simp
  have h2: "Map_get (threatCallbacks (transactionMonitor S1)) ''W'' = Some ''U''"
    unfolding S1_def by code_simp
  have h3: "analyzeTransaction (recordActivity 2000 ''W''
        \<lparr>userId = ''U'', lastCheck = 0, transactionCount = 1, subscriptionId = Some 1,
         logsSubscriptionId = Some 2, lastActivity = Some 1000, hadAccount = False\<rparr>
        (transactionMonitor S1)) 2000 ''W'' (Some \<lparr>tx_meta = None, accountKeys = []\<rparr>)
        \<lparr>logs_signature = ''sig'', logs_logs = Lines [LogStr ''Instruction: Approve'']\<rparr>
      = Some (basicThreat WARNING ''Transaction Analysis'' 50
          [''Token approval detected - potential drainer''] 2000 (Some ''sig''))"
    unfolding S1_def by code_simp
  have "alertKeys (sent (handleTransactionLogs 2000
       (Ok (Some \<lparr>tx_meta = None, accountKeys = []\<rparr>)) Timeout ''W''
       \<lparr>logs_signature = ''sig'', logs_logs = Lines [LogStr ''Instruction: Approve'']\<rparr> S1))
     = alertKeys (sent S1) @ [(''W'', Some ''sig'')]"
    using every_qualifying_event_sends_its_own_alert [OF h1 h2 h3, of Timeout] by simp
  with k show ?thesis unfolding S1_def by (intro conjI)
qed

text \<open>
  C1 as stated fails: two log events of one wallet with the same signature give two
  alerts with the same key.
\<close>

theorem same_signature_sends_two_alerts:
  "alertKeys (sent (handleTransactionLogs 2000
       (Ok (Some \<lparr>tx_meta = None, accountKeys = []\<rparr>)) Timeout ''W''
       \<lparr>logs_signature = ''sig'', logs_logs = Lines [LogStr ''Instruction: Approve'']\<rparr>
       (handleTransactionLogs 1000
          (Ok (Some \<lparr>tx_meta = None, accountKeys = []\<rparr>)) Timeout ''W''
          \<lparr>logs_signature = ''sig'', logs_logs = Lines [LogStr ''Instruction: Approve'']\<rparr>
          (watching None [''W''] ''U''))))
     = [(''W'', Some ''sig''), (''W'', Some ''sig'')]"
  by code_simp

text \<open>
  C2, as the code has it. When the transaction of a log event cannot be obtained (the
  fetch throws or times out, or returns null), the handler still returns normally, but
  the event is dropped: the wallet's counter and last activity are updated and nothing
  else changes, and the scorer returns null for a null transaction without looking at
  the log lines. The \<open>Analysis error occurred\<close> finding (+10) is what the scorer's
  \<open>catch\<close> adds when scoring a fetched transaction throws: alone when \<open>logs.logs\<close> has
  no \<open>forEach\<close> (score 10, below the threshold), and after the findings gathered so far
  when a log line is not a string.
\<close>

theorem unfetched_transaction_drops_the_event:
  assumes "Map_get (monitoredWallets (transactionMonitor b)) w = Some walletInfo"
    and "fetched = Failed \<or> fetched = Ok None"
  shows "handleTransactionLogs now fetched response w lg b
           = b\<lparr>transactionMonitor := recordActivity now w walletInfo (transactionMonitor b)\<rparr>
         \<and> analyzeTransaction mon now w None lg = None
         \<and> (logs_logs lg' = NotAnArray \<longrightarrow>
              transactionFindings mon now w t lg' = ([''Analysis error occurred''], 10)
              \<and> analyzeTransaction mon now w (Some t) lg' = None)
         \<and> (\<forall>ls a. logs_logs lg'' = Lines ls \<and> forEachLog ls ([], 0) = (Thrown, a) \<longrightarrow>
              transactionFindings mon now w t lg''
                = (fst a @ [''Analysis error occurred''], snd a + 10))"
  using assms
  by (auto simp: handleTransactionLogs_def Let_def analyzeTransaction_def
      transactionFindings_def catchAnalysisError_def flag_def)

theorem unfetched_transaction_drops_the_event_witness:
  "handleTransactionLogs 1000 (Ok None) Timeout ''W''
     \<lparr>logs_signature = ''sig'', logs_logs = Lines [LogStr ''Program log: drainer invoke'']\<rparr>
     (watching None [''W''] ''U'')
   = (watching None [''W''] ''U'')\<lparr>transactionMonitor :=
        recordActivity 1000 ''W''
          \<lparr>userId = ''U'', lastCheck = 0, transactionCount = 0, subscriptionId = Some 1,
           logsSubscriptionId = Some 2, lastActivity = None, hadAccount = False\<rparr>
          (transactionMonitor (watching None [''W''] ''U''))\<rparr>
   \<and> transactionFindings new_monitor 1000 ''W'' \<lparr>tx_meta = None, accountKeys = []\<rparr>
       \<lparr>logs_signature = ''sig'', logs_logs = NotAnArray\<rparr>
     = ([''Analysis error occurred''], 10)
   \<and> transactionFindings new_monitor 1000 ''W'' \<lparr>tx_meta = None, accountKeys = []\<rparr>
       \<lparr>logs_signature = ''sig'',
        logs_logs = Lines [LogStr ''Instruction: Approve'', LogOther, LogStr ''drainer'']\<rparr>
     = ([''Token approval detected - potential drainer'', ''Analysis error occurred''], 60)"
proof -
  have h1: "Map_get (monitoredWallets (transactionMonitor (watching None [''W''] ''U''))) ''W''
      = Some \<lparr>userId = ''U'', lastCheck = 0, transactionCount = 0, subscriptionId = Some 1,
           logsSubscriptionId = Some 2, lastActivity = None, hadAccount = False\<rparr>"
    by code_simp
  have h2: "(Ok None :: tx option outcome) = Failed \<or> (Ok None :: tx option outcome) = Ok None"
    by simp
  have h3: "logs_logs \<lparr>logs_signature = ''sig'', logs_logs = NotAnArray\<rparr> = NotAnArray"
    by simp
  have h4: "logs_logs \<lparr>logs_signature = ''sig'',
        logs_logs = Lines [LogStr ''Instruction: Approve'', LogOther, LogStr ''drainer'']\<rparr>
        = Lines [LogStr ''Instruction: Approve'', LogOther, LogStr ''drainer'']
      \<and> forEachLog [LogStr ''Instruction: Approve'', LogOther, LogStr ''drainer''] ([], 0)
        = (Thrown, ([''Token approval detected - potential drainer''], 50))"
    by code_simp
  note T = unfetched_transaction_drops_the_event [OF h1 h2, where now = 1000
      and response = Timeout and mon = new_monitor
      and t = "\<lparr>tx_meta = None, accountKeys = []\<rparr>"
      and lg = "\<lparr>logs_signature = ''sig'',
                 logs_logs = Lines [LogStr ''Program log: drainer invoke'']\<rparr>"
      and lg' = "\<lparr>logs_signature = ''sig'', logs_logs = NotAnArray\<rparr>"
      and lg'' = "\<lparr>logs_signature = ''sig'',
        logs_logs = Lines [LogStr ''Instruction: Approve'', LogOther, LogStr ''drainer'']\<rparr>"]
  from T have a: "handleTransactionLogs 1000 (Ok None) Timeout ''W''
     \<lparr>logs_signature = ''sig'', logs_logs = Lines [LogStr ''Program log: drainer invoke'']\<rparr>
     (watching None [''W''] ''U'')
   = (watching None [''W''] ''U'')\<lparr>transactionMonitor :=
        recordActivity 1000 ''W''
          \<lparr>userId = ''U'', lastCheck = 0, transactionCount = 0, subscriptionId = Some 1,
           logsSubscriptionId = Some 2, lastActivity = None, hadAccount = False\<rparr>
          (transactionMonitor (watching None [''W''] ''U''))\<rparr>"
    by (rule conjunct1)
  from T h3 have b: "transactionFindings new_monitor 1000 ''W'' \<lparr>tx_meta = None, accountKeys = []\<rparr>
       \<lparr>logs_signature = ''sig'', logs_logs = NotAnArray\<rparr>
     = ([''Analysis error occurred''], 10)"
    by blast
  from T h4 have "transactionFindings new_monitor 1000 ''W'' \<lparr>tx_meta = None, accountKeys = []\<rparr>
       \<lparr>logs_signature = ''sig'',
        logs_logs = Lines [LogStr ''Instruction: Approve'', LogOther, LogStr ''drainer'']\<rparr>
     = (fst ([''Token approval detected - potential drainer''], 50 :: nat)
          @ [''Analysis error occurred''],
        snd ([''Token approval detected - potential drainer''], 50 :: nat) + 10)"
    by blast
  then have c: "transactionFindings new_monitor 1000 ''W'' \<lparr>tx_meta = None, accountKeys = []\<rparr>
       \<lparr>logs_signature = ''sig'',
        logs_logs = Lines [LogStr ''Instruction: Approve'', LogOther, LogStr ''drainer'']\<rparr>
     = ([''Token approval detected - potential drainer'', ''Analysis error occurred''], 60)"
    by simp
  from a b c show ?thesis by (intro conjI)
qed

text \<open>
  C2 as stated fails: with a null or failed fetch, log lines that score 110 once the
  transaction is there produce no evaluation and no alert.
\<close>

theorem unfetched_transaction_is_not_evaluated:
  "alertKeys (sent (handleTransactionLogs 1000 (Ok None) Timeout ''W''
     \<lparr>logs_signature = ''sig'', logs_logs = Lines [LogStr ''Program log: drainer invoke'']\<rparr>
     (watching None [''W''] ''U''))) = []
   \<and> alertKeys (sent (handleTransactionLogs 1000 Failed Timeout ''W''
     \<lparr>logs_signature = ''sig'', logs_logs = Lines [LogStr ''Program log: drainer invoke'']\<rparr>
     (watching None [''W''] ''U''))) = []
   \<and> analyzeTransaction (transactionMonitor (watching None [''W''] ''U'')) 1000 ''W'' None
     \<lparr>logs_signature = ''sig'', logs_logs = Lines [LogStr ''Program log: drainer invoke'']\<rparr>
     = None
   \<and> alertKeys (sent (handleTransactionLogs 1000
       (Ok (Some \<lparr>tx_meta = None, accountKeys = []\<rparr>)) Timeout ''W''
     \<lparr>logs_signature = ''sig'', logs_logs = Lines [LogStr ''Program log: drainer invoke'']\<rparr>
     (watching None [''W''] ''U''))) = [(''W'', Some ''sig'')]"
  by code_simp

text \<open>
  C5, as the code has it. The wallet's behaviour profile is touched only inside the
  threat callback: a log event whose fetch fails or whose evaluation stays at or below
  the threshold leaves the analyzer as it was, and an event that raises a threat updates
  the profile once, from the threat's labels (the transaction count goes up by one, or
  the profile is created with count 1). Unwatching changes nothing of the analyzer: the
  profile stays.
\<close>

theorem profile_updated_only_on_alerts:
  "(Map_get (monitoredWallets (transactionMonitor b)) w = Some walletInfo
      \<and> (fetched = Failed
          \<or> (\<exists>transaction. fetched = Ok transaction
               \<and> analyzeTransaction (recordActivity now w walletInfo (transactionMonitor b))
                    now w transaction lg = None)) \<longrightarrow>
      threatAnalyzer (handleTransactionLogs now fetched response w lg b) = threatAnalyzer b)
   \<and> (Map_get (monitoredWallets (transactionMonitor b)) w = Some walletInfo
      \<and> Map_get (threatCallbacks (transactionMonitor b)) w = Some uid
      \<and> analyzeTransaction (recordActivity now w walletInfo (transactionMonitor b))
           now w transaction' lg' = Some th \<longrightarrow>
      threatAnalyzer (handleTransactionLogs now (Ok transaction') response w lg' b)
        = updateWalletProfile now w (threats th) (threatAnalyzer b))
   \<and> map_option totalTransactions (Map_get (walletProfiles (updateWalletProfile now w ls an)) w)
       = Some (case Map_get (walletProfiles an) w of None \<Rightarrow> 1
               | Some p \<Rightarrow> totalTransactions p + 1)
   \<and> threatAnalyzer (unwatch rmAccount rmLogs w' b) = threatAnalyzer b"
proof (intro conjI impI)
  assume "Map_get (monitoredWallets (transactionMonitor b)) w = Some walletInfo
      \<and> (fetched = Failed
          \<or> (\<exists>transaction. fetched = Ok transaction
               \<and> analyzeTransaction (recordActivity now w walletInfo (transactionMonitor b))
                    now w transaction lg = None))"
  then show "threatAnalyzer (handleTransactionLogs now fetched response w lg b)
      = threatAnalyzer b"
    by (auto simp: handleTransactionLogs_def Let_def)
next
  assume "Map_get (monitoredWallets (transactionMonitor b)) w = Some walletInfo
      \<and> Map_get (threatCallbacks (transactionMonitor b)) w = Some uid
      \<and> analyzeTransaction (recordActivity now w walletInfo (transactionMonitor b))
           now w transaction' lg' = Some th"
  then show "threatAnalyzer (handleTransactionLogs now (Ok transaction') response w lg' b)
        = updateWalletProfile now w (threats th) (threatAnalyzer b)"
    by (simp add: handleTransactionLogs_def Let_def sendThreatAlert_def
        recordActivity_callbacks handleThreatDetected_analyzer)
next
  show "map_option totalTransactions
          (Map_get (walletProfiles (updateWalletProfile now w ls an)) w)
       = Some (case Map_get (walletProfiles an) w of None \<Rightarrow> 1
               | Some p \<Rightarrow> totalTransactions p + 1)"
    by (simp add: updateWalletProfile_def Let_def update_conv' split: option.splits)
next
  show "threatAnalyzer (unwatch rmAccount rmLogs w' b) = threatAnalyzer b"
    by (simp add: unwatch_def)
qed

theorem profile_updated_only_on_alerts_witness:
  "threatAnalyzer (handleTransactionLogs 1000
       (Ok (Some \<lparr>tx_meta = None, accountKeys = []\<rparr>)) Timeout ''W''
       \<lparr>logs_signature = ''s1'', logs_logs = Lines [LogStr ''Program log: Transfer'']\<rparr>
       (watching None [''W''] ''U''))
     = threatAnalyzer (watching None [''W''] ''U'')
   \<and> threatAnalyzer (handleTransactionLogs 1000
       (Ok (Some \<lparr>tx_meta = None, accountKeys = []\<rparr>)) Timeout ''W''
       \<lparr>logs_signature = ''sig'', logs_logs = Lines [LogStr ''Instruction: Approve'']\<rparr>
       (watching None [''W''] ''U''))
     = updateWalletProfile 1000 ''W''
         (threats (basicThreat WARNING ''Transaction Analysis'' 50
            [''Token approval detected - potential drainer''] 1000 (Some ''sig'')))
         (threatAnalyzer (watching None [''W''] ''U''))"
proof -
  have h1: "Map_get (monitoredWallets (transactionMonitor (watching None [''W''] ''U''))) ''W''
      = Some \<lparr>userId = ''U'', lastCheck = 0, transactionCount = 0, subscriptionId = Some 1,
           logsSubscriptionId = Some 2, lastActivity = None, hadAccount = False\<rparr>"
    by code_simp
  have h2: "Map_get (threatCallbacks (transactionMonitor (watching None [''W''] ''U''))) ''W''
      = Some ''U''"
    by code_simp
  have h3: "analyzeTransaction (recordActivity 1000 ''W''
        \<lparr>userId = ''U'', lastCheck = 0, transactionCount = 0, subscriptionId = Some 1,
         logsSubscriptionId = Some 2, lastActivity = None, hadAccount = False\<rparr>
        (transactionMonitor (watching None [''W''] ''U''))) 1000 ''W''
        (Some \<lparr>tx_meta = None, accountKeys = []\<rparr>)
        \<lparr>logs_signature = ''s1'', logs_logs = Lines [LogStr ''Program log: Transfer'']\<rparr>
      = None"
    by code_simp
  have h4: "analyzeTransaction (recordActivity 1000 ''W''
        \<lparr>userId = ''U'', lastCheck = 0, transactionCount = 0, subscriptionId = Some 1,
         logsSubscriptionId = Some 2, lastActivity = None, hadAccount = False\<rparr>
        (transactionMonitor (watching None [''W''] ''U''))) 1000 ''W''
        (Some \<lparr>tx_meta = None, accountKeys = []\<rparr>)
        \<lparr>logs_signature = ''sig'', logs_logs = Lines [LogStr ''Instruction: Approve'']\<rparr>
      = Some (basicThreat WARNING ''Transaction Analysis'' 50
          [''Token approval detected - potential drainer''] 1000 (Some ''sig''))"
    by code_simp
  note T = profile_updated_only_on_alerts [where b = "watching None [''W''] ''U''"
      and w = "''W''" and now = 1000 and uid = "''U''" and response = Timeout
      and walletInfo = "\<lparr>userId = ''U'', lastCheck = 0, transactionCount = 0,
         subscriptionId = Some 1, logsSubscriptionId = Some 2, lastActivity = None,
         hadAccount = False\<rparr>"
      and fetched = "Ok (Some \<lparr>tx_meta = None, accountKeys = []\<rparr>)"
      and lg = "\<lparr>logs_signature = ''s1'', logs_logs = Lines [LogStr ''Program log: Transfer'']\<rparr>"
      and transaction' = "Some \<lparr>tx_meta = None, accountKeys = []\<rparr>"
      and lg' = "\<lparr>logs_signature = ''sig'', logs_logs = Lines [LogStr ''Instruction: Approve'']\<rparr>"
      and th = "basicThreat WARNING ''Transaction Analysis'' 50
          [''Token approval detected - potential drainer''] 1000 (Some ''sig'')"]
  from T h1 h2 h3 h4 show ?thesis by blast
qed

text \<open>
  C5 as stated fails: a transaction event below the threshold creates and updates no
  profile, and after an alert the profile is still there when the wallet has been
  unwatched.
\<close>

theorem profile_not_updated_and_never_dropped:
  "Map_get (walletProfiles (threatAnalyzer (handleTransactionLogs 1000
       (Ok (Some \<lparr>tx_meta = None, accountKeys = []\<rparr>)) Timeout ''W''
       \<lparr>logs_signature = ''s1'', logs_logs = Lines [LogStr ''Program log: Transfer'']\<rparr>
       (watching None [''W''] ''U'')))) ''W'' = None
   \<and> Map_get (monitoredWallets (transactionMonitor (unwatch (Ok ()) (Ok ()) ''W''
       (handleTransactionLogs 1000
          (Ok (Some \<lparr>tx_meta = None, accountKeys = []\<rparr>)) Timeout ''W''
          \<lparr>logs_signature = ''sig'', logs_logs = Lines [LogStr ''Instruction: Approve'']\<rparr>
          (watching None [''W''] ''U''))))) ''W'' = None
   \<and> map_option totalTransactions
       (Map_get (walletProfiles (threatAnalyzer (unwatch (Ok ()) (Ok ()) ''W''
          (handleTransactionLogs 1000
             (Ok (Some \<lparr>tx_meta = None, accountKeys = []\<rparr>)) Timeout ''W''
             \<lparr>logs_signature = ''sig'', logs_logs = Lines [LogStr ''Instruction: Approve'']\<rparr>
             (watching None [''W''] ''U''))))) ''W'') = Some 1"
  by code_simp

end
